theory Spec2Isabelle
  imports Main "HOL-Library.Code_Target_Nat"
begin

section \<open>Strings and numbers of the host language\<close>

text \<open>
  A JavaScript string is a sequence of UTF-16 code units; \<open>length\<close>, \<open>slice\<close>,
  \<open>split\<close> and the regular expressions of the program all count code units. A string is
  therefore a list of code units, each a natural number below \<open>65536\<close>. \<open>U\<close> turns an ASCII
  literal into such a list.
\<close>

type_synonym jstring = "nat list"

definition U :: "string \<Rightarrow> jstring" where
  "U s = map of_char s"

text \<open>\<open>xs.slice(0, e)\<close> for an integer \<open>e\<close>: a negative end counts from the end.\<close>

definition slice0 :: "'a list \<Rightarrow> int \<Rightarrow> 'a list" where
  "slice0 xs e = take (nat (if e < 0 then int (length xs) + e else e)) xs"

fun nat_digits :: "nat \<Rightarrow> jstring" where
  "nat_digits n = (if n < 10 then [48 + n] else nat_digits (n div 10) @ [48 + n mod 10])"

declare nat_digits.simps [simp del]

text \<open>
  A number is kept as a decimal \<open>m / 10 ^ k\<close> (mantissa \<open>m\<close>, scale \<open>k\<close>), in normal form
  when \<open>k = 0\<close> or \<open>m\<close> is not a multiple of ten. Every JSON literal has such a value; the
  rounding of a literal of more than 15 significant digits to a double, and the overflow
  of a double to infinity, are not modelled.
  \<open>Number_toString\<close> is \<open>Number.prototype.toString\<close> on that value: positional notation
  when the decimal point lies between 6 places left and 21 places right of the first
  digit, exponent notation otherwise.
\<close>

fun strip_zeros :: "jstring \<Rightarrow> jstring" where
  "strip_zeros ds = rev (dropWhile (\<lambda>d. d = 48) (rev ds))"

definition Number_toString :: "int \<Rightarrow> nat \<Rightarrow> jstring" where
  "Number_toString m k =
     (if m = 0 then U ''0''
      else
        let sgn = (if m < 0 then U ''-'' else []);
            ds = nat_digits (nat \<bar>m\<bar>);
            e = int (length ds) - int k
        in if 0 < e \<and> e \<le> 21 then
             (if k = 0 then sgn @ ds
              else sgn @ take (nat e) ds @ U ''.'' @ drop (nat e) ds)
           else if - 6 < e \<and> e \<le> 0 then
             sgn @ U ''0.'' @ replicate (nat (- e)) 48 @ ds
           else
             let s = strip_zeros ds;
                 x = e - 1
             in sgn @ take 1 s @ (if length s > 1 then U ''.'' @ drop 1 s else [])
                  @ U ''e'' @ (if x < 0 then U ''-'' else U ''+'') @ nat_digits (nat \<bar>x\<bar>))"

section \<open>JSON values\<close>

text \<open>
  The values \<open>JSON.parse\<close> produces. An object is the list of its own properties in the
  order \<open>Object.entries\<close> enumerates them. \<open>undefined\<close> is not a JSON value: a property
  read yields a \<open>json option\<close>, with \<open>None\<close> for \<open>undefined\<close>.
\<close>

datatype json =
    JNull
  | JBool bool
  | JNum int nat
  | JStr jstring
  | JArr "json list"
  | JObj "(jstring \<times> json) list"

text \<open>
  An array index is the canonical decimal form of an integer below \<open>2^32 - 1\<close>; such keys
  come first, in ascending order, when the properties of an object are enumerated.
\<close>

definition is_digit :: "nat \<Rightarrow> bool" where
  "is_digit c = (48 \<le> c \<and> c \<le> 57)"

definition digits_value :: "jstring \<Rightarrow> nat" where
  "digits_value ds = foldl (\<lambda>a d. 10 * a + (d - 48)) 0 ds"

definition array_index :: "jstring \<Rightarrow> nat option" where
  "array_index k =
     (if k \<noteq> [] \<and> list_all is_digit k \<and> (k = U ''0'' \<or> hd k \<noteq> 48) \<and> length k \<le> 10
         \<and> digits_value k < 4294967295
      then Some (digits_value k) else None)"

definition before_index :: "nat \<Rightarrow> jstring \<times> json \<Rightarrow> bool" where
  "before_index i kv = (case array_index (fst kv) of Some j \<Rightarrow> j < i | None \<Rightarrow> False)"

text \<open>Defining the own data property \<open>k\<close> of an object, as \<open>JSON.parse\<close> does.\<close>

definition obj_put :: "(jstring \<times> json) list \<Rightarrow> jstring \<Rightarrow> json \<Rightarrow> (jstring \<times> json) list" where
  "obj_put kvs k v =
     (if k \<in> fst ` set kvs then map (\<lambda>kv. if fst kv = k then (k, v) else kv) kvs
      else case array_index k of
             Some i \<Rightarrow> takeWhile (before_index i) kvs @ [(k, v)] @ dropWhile (before_index i) kvs
           | None \<Rightarrow> kvs @ [(k, v)])"

text \<open>
  The assignment \<open>result[key] = value\<close> on an object created by \<open>{}\<close>. The key
  \<open>__proto__\<close> reaches the setter inherited from \<open>Object.prototype\<close>, which defines no own
  property; every other key is defined as above.
\<close>

definition obj_assign :: "(jstring \<times> json) list \<Rightarrow> jstring \<Rightarrow> json \<Rightarrow> (jstring \<times> json) list" where
  "obj_assign result key v = (if key = U ''__proto__'' then result else obj_put result key v)"

text \<open>Reading a named property \<open>v.k\<close>, for the names the program reads (none of them
  is \<open>length\<close>, an index, or a property of a prototype).\<close>

fun get_prop :: "json \<Rightarrow> jstring \<Rightarrow> json option" where
  "get_prop (JObj kvs) k = map_of kvs k"
| "get_prop v k = None"

text \<open>Truthiness of a value that may be \<open>undefined\<close>.\<close>

fun truthy :: "json option \<Rightarrow> bool" where
  "truthy None = False"
| "truthy (Some JNull) = False"
| "truthy (Some (JBool b)) = b"
| "truthy (Some (JNum m k)) = (m \<noteq> 0)"
| "truthy (Some (JStr s)) = (s \<noteq> [])"
| "truthy (Some (JArr xs)) = True"
| "truthy (Some (JObj kvs)) = True"

text \<open>\<open>v !== null && typeof v === "object"\<close>.\<close>

fun is_object :: "json \<Rightarrow> bool" where
  "is_object (JArr xs) = True"
| "is_object (JObj kvs) = True"
| "is_object v = False"

text \<open>\<open>Object.keys(v)\<close>: the indices of an array or of a string, the keys of an object.\<close>

fun Object_keys :: "json \<Rightarrow> jstring list" where
  "Object_keys (JObj kvs) = map fst kvs"
| "Object_keys (JArr xs) = map nat_digits [0 ..< length xs]"
| "Object_keys (JStr s) = map nat_digits [0 ..< length s]"
| "Object_keys v = []"

text \<open>A component of an array or of an object is smaller than the whole.\<close>

lemma json_size_elem: "item \<in> set xs \<Longrightarrow> size item \<le> size_list size xs"
  by (induction xs) auto

lemma json_size_slice: "item \<in> set (slice0 xs e) \<Longrightarrow> size item \<le> size_list size xs"
  by (rule json_size_elem) (auto simp: slice0_def dest: in_set_takeD)

lemma json_size_entry:
  "kv \<in> set kvs \<Longrightarrow> size (snd kv) \<le> size_list (size_prod (\<lambda>x. 0) size) (kvs :: (jstring \<times> json) list)"
  by (induction kvs) auto

section \<open>The tree walkers of the result formatter\<close>

definition NOISE_FIELDS :: "jstring set" where
  "NOISE_FIELDS = {U ''id'', U ''timestamp''}"

function truncateArrays :: "json \<Rightarrow> int \<Rightarrow> json" where
  "truncateArrays (JArr obj) maxItems =
     (let truncated = map (\<lambda>item. truncateArrays item maxItems) (slice0 obj maxItems)
      in if int (length obj) > maxItems
         then JArr (truncated @
                [JStr (U ''... +'' @ Number_toString (int (length obj) - maxItems) 0 @ U '' more'')])
         else JArr truncated)"
| "truncateArrays (JObj obj) maxItems =
     JObj (fold (\<lambda>kv result. obj_assign result (fst kv) (truncateArrays (snd kv) maxItems)) obj [])"
| "truncateArrays JNull maxItems = JNull"
| "truncateArrays (JBool b) maxItems = JBool b"
| "truncateArrays (JNum m k) maxItems = JNum m k"
| "truncateArrays (JStr s) maxItems = JStr s"
  by pat_completeness auto
termination
  by (relation "measure (\<lambda>(v, m). size v)")
     (auto simp: less_Suc_eq_le dest!: json_size_slice json_size_entry)

declare truncateArrays.simps [simp del]

function truncateStringValues :: "json \<Rightarrow> int \<Rightarrow> json" where
  "truncateStringValues (JStr obj) maxLen =
     (if int (length obj) > maxLen then JStr (slice0 obj (maxLen - 3) @ U ''...'') else JStr obj)"
| "truncateStringValues (JArr obj) maxLen =
     JArr (map (\<lambda>item. truncateStringValues item maxLen) obj)"
| "truncateStringValues (JObj obj) maxLen =
     JObj (fold (\<lambda>kv result. obj_assign result (fst kv) (truncateStringValues (snd kv) maxLen))
             obj [])"
| "truncateStringValues JNull maxLen = JNull"
| "truncateStringValues (JBool b) maxLen = JBool b"
| "truncateStringValues (JNum m k) maxLen = JNum m k"
  by pat_completeness auto
termination
  by (relation "measure (\<lambda>(v, m). size v)")
     (auto simp: less_Suc_eq_le dest!: json_size_elem json_size_entry)

declare truncateStringValues.simps [simp del]

function removeNoiseFields :: "json \<Rightarrow> bool \<Rightarrow> json" where
  "removeNoiseFields (JArr obj) insideArray =
     JArr (map (\<lambda>item. removeNoiseFields item True) obj)"
| "removeNoiseFields (JObj obj) insideArray =
     JObj (fold (\<lambda>kv result.
             if insideArray \<and> fst kv \<in> NOISE_FIELDS then result
             else if insideArray \<and> fst kv = U ''graphql'' \<and> is_object (snd kv)
                     \<and> length (Object_keys (snd kv)) = 0 then result
             else obj_assign result (fst kv) (removeNoiseFields (snd kv) False))
           obj [])"
| "removeNoiseFields JNull insideArray = JNull"
| "removeNoiseFields (JBool b) insideArray = JBool b"
| "removeNoiseFields (JNum m k) insideArray = JNum m k"
| "removeNoiseFields (JStr s) insideArray = JStr s"
  by pat_completeness auto
termination
  by (relation "measure (\<lambda>(v, b). size v)")
     (auto simp: less_Suc_eq_le dest!: json_size_elem json_size_entry)

declare removeNoiseFields.simps [simp del]

section \<open>\<open>JSON.stringify\<close>, \<open>JSON.parse\<close> and string conversion\<close>

definition join :: "jstring \<Rightarrow> jstring list \<Rightarrow> jstring" where
  "join sep xs = (case xs of [] \<Rightarrow> [] | x # rest \<Rightarrow> x @ concat (map (\<lambda>y. sep @ y) rest))"

text \<open>\<open>s.split(sep)\<close> for a separator of one code unit: an empty string gives one empty
  piece, and a trailing separator a trailing empty piece.\<close>

fun split_on :: "nat \<Rightarrow> jstring \<Rightarrow> jstring list" where
  "split_on sep [] = [[]]"
| "split_on sep (c # cs) =
     (if c = sep then [] # split_on sep cs
      else case split_on sep cs of [] \<Rightarrow> [[c]] | l # ls \<Rightarrow> (c # l) # ls)"

definition hex_digit :: "nat \<Rightarrow> nat" where
  "hex_digit n = (if n < 10 then 48 + n else 87 + n)"

definition hex4 :: "nat \<Rightarrow> jstring" where
  "hex4 c = [hex_digit (c div 4096 mod 16), hex_digit (c div 256 mod 16),
             hex_digit (c div 16 mod 16), hex_digit (c mod 16)]"

definition is_high_surrogate :: "nat \<Rightarrow> bool" where
  "is_high_surrogate c = (55296 \<le> c \<and> c \<le> 56319)"

definition is_low_surrogate :: "nat \<Rightarrow> bool" where
  "is_low_surrogate c = (56320 \<le> c \<and> c \<le> 57343)"

text \<open>
  The quoting of \<open>JSON.stringify\<close>: the short escapes for backspace, tab, line feed, form
  feed, carriage return, the quote and the backslash, \<open>\uXXXX\<close> for the other control
  characters and for a surrogate that is not part of a pair.
\<close>

definition quote1 :: "nat \<Rightarrow> jstring" where
  "quote1 c =
     (if c = 8 then [92, 98] else if c = 9 then [92, 116] else if c = 10 then [92, 110]
      else if c = 12 then [92, 102] else if c = 13 then [92, 114]
      else if c = 34 then [92, 34] else if c = 92 then [92, 92]
      else if c < 32 \<or> is_high_surrogate c \<or> is_low_surrogate c then [92, 117] @ hex4 c
      else [c])"

fun quote_chars :: "jstring \<Rightarrow> jstring" where
  "quote_chars (c # d # ds) =
     (if is_high_surrogate c \<and> is_low_surrogate d then c # d # quote_chars ds
      else quote1 c @ quote_chars (d # ds))"
| "quote_chars [c] = quote1 c"
| "quote_chars [] = []"

definition JSON_quote :: "jstring \<Rightarrow> jstring" where
  "JSON_quote s = [34] @ quote_chars s @ [34]"

text \<open>\<open>JSON.stringify(v)\<close> on a parsed value.\<close>

function JSON_stringify :: "json \<Rightarrow> jstring" where
  "JSON_stringify JNull = U ''null''"
| "JSON_stringify (JBool b) = (if b then U ''true'' else U ''false'')"
| "JSON_stringify (JNum m k) = Number_toString m k"
| "JSON_stringify (JStr s) = JSON_quote s"
| "JSON_stringify (JArr xs) = U ''['' @ join (U '','') (map JSON_stringify xs) @ U '']''"
| "JSON_stringify (JObj kvs) =
     U ''{'' @ join (U '','')
                (map (\<lambda>kv. JSON_quote (fst kv) @ U '':'' @ JSON_stringify (snd kv)) kvs)
       @ U ''}''"
  by pat_completeness auto
termination
  by (relation "measure size")
     (auto simp: less_Suc_eq_le dest!: json_size_elem json_size_entry)

declare JSON_stringify.simps [simp del]

text \<open>\<open>JSON.stringify(v, null, 2)\<close>; \<open>indent\<close> is the indentation reached so far.\<close>

function JSON_stringify_indent :: "jstring \<Rightarrow> json \<Rightarrow> jstring" where
  "JSON_stringify_indent indent JNull = U ''null''"
| "JSON_stringify_indent indent (JBool b) = (if b then U ''true'' else U ''false'')"
| "JSON_stringify_indent indent (JNum m k) = Number_toString m k"
| "JSON_stringify_indent indent (JStr s) = JSON_quote s"
| "JSON_stringify_indent indent (JArr xs) =
     (if xs = [] then U ''[]''
      else U ''['' @ [10] @ (indent @ U ''  '')
           @ join (U '','' @ [10] @ (indent @ U ''  ''))
                (map (JSON_stringify_indent (indent @ U ''  '')) xs)
           @ [10] @ indent @ U '']'')"
| "JSON_stringify_indent indent (JObj kvs) =
     (if kvs = [] then U ''{}''
      else U ''{'' @ [10] @ (indent @ U ''  '')
           @ join (U '','' @ [10] @ (indent @ U ''  ''))
                (map (\<lambda>kv. JSON_quote (fst kv) @ U '': ''
                            @ JSON_stringify_indent (indent @ U ''  '') (snd kv)) kvs)
           @ [10] @ indent @ U ''}'')"
  by pat_completeness auto
termination
  by (relation "measure (\<lambda>(i, v). size v)")
     (auto simp: less_Suc_eq_le dest!: json_size_elem json_size_entry)

declare JSON_stringify_indent.simps [simp del]

text \<open>
  String conversion (\<open>String(v)\<close>, a template literal, the elements of \<open>join\<close>). An array
  joins its elements with commas, \<open>null\<close> elements giving the empty string; an object
  gives \<open>[object Object]\<close> unless it has an own property \<open>toString\<close>, which is never
  callable in a parsed value, so that the conversion raises a TypeError (\<open>None\<close>).
\<close>

fun those_strings :: "jstring option list \<Rightarrow> jstring list option" where
  "those_strings [] = Some []"
| "those_strings (None # xs) = None"
| "those_strings (Some s # xs) = map_option (Cons s) (those_strings xs)"

function ToString :: "json \<Rightarrow> jstring option" where
  "ToString JNull = Some (U ''null'')"
| "ToString (JBool b) = Some (if b then U ''true'' else U ''false'')"
| "ToString (JNum m k) = Some (Number_toString m k)"
| "ToString (JStr s) = Some s"
| "ToString (JArr xs) =
     map_option (join (U '',''))
       (those_strings (map (\<lambda>x. if x = JNull then Some [] else ToString x) xs))"
| "ToString (JObj kvs) =
     (if U ''toString'' \<in> fst ` set kvs then None else Some (U ''[object Object]''))"
  by pat_completeness auto
termination
  by (relation "measure size")
     (auto simp: less_Suc_eq_le dest!: json_size_elem)

text \<open>The same for a value that may be \<open>undefined\<close>.\<close>

fun ToString_opt :: "json option \<Rightarrow> jstring option" where
  "ToString_opt None = Some (U ''undefined'')"
| "ToString_opt (Some v) = ToString v"

subsection \<open>The lexer\<close>

datatype token = TLBrace | TRBrace | TLBrack | TRBrack | TColon | TComma | TValue json

definition is_ws :: "nat \<Rightarrow> bool" where
  "is_ws c = (c = 32 \<or> c = 9 \<or> c = 10 \<or> c = 13)"

definition is_hex :: "nat \<Rightarrow> bool" where
  "is_hex c = (is_digit c \<or> (97 \<le> c \<and> c \<le> 102) \<or> (65 \<le> c \<and> c \<le> 70))"

definition hex_value :: "jstring \<Rightarrow> nat" where
  "hex_value ds =
     foldl (\<lambda>a d. 16 * a + (if is_digit d then d - 48 else if 97 \<le> d then d - 87 else d - 55)) 0 ds"

definition escape_char :: "nat \<Rightarrow> nat option" where
  "escape_char e =
     (if e = 34 then Some 34 else if e = 92 then Some 92 else if e = 47 then Some 47
      else if e = 98 then Some 8 else if e = 102 then Some 12 else if e = 110 then Some 10
      else if e = 114 then Some 13 else if e = 116 then Some 9 else None)"

text \<open>
  \<open>lex_string\<close> reads a string literal after its opening quote and returns the decoded
  string with the number of code units read, the closing quote included.
\<close>

fun lex_string :: "jstring \<Rightarrow> (jstring \<times> nat) option" where
  "lex_string [] = None"
| "lex_string (c # cs) =
     (if c = 34 then Some ([], 1)
      else if c = 92 then
        (case cs of
           [] \<Rightarrow> None
         | e # rest \<Rightarrow>
             if e = 117 then
               (if 4 \<le> length rest \<and> list_all is_hex (take 4 rest)
                then map_option (\<lambda>(s, n). (hex_value (take 4 rest) # s, n + 6))
                       (lex_string (drop 4 rest))
                else None)
             else (case escape_char e of
                     None \<Rightarrow> None
                   | Some x \<Rightarrow> map_option (\<lambda>(s, n). (x # s, n + 2)) (lex_string rest)))
      else if c < 32 then None
      else map_option (\<lambda>(s, n). (c # s, n + 1)) (lex_string cs))"

declare lex_string.simps [simp del]

fun norm_dec :: "int \<Rightarrow> nat \<Rightarrow> int \<times> nat" where
  "norm_dec m 0 = (m, 0)"
| "norm_dec m (Suc k) =
     (if m = 0 then (0, 0)
      else if m mod 10 = 0 then norm_dec (m div 10) k
      else (m, Suc k))"

text \<open>The decimal \<open>m \<times> 10^(ex - sc)\<close> in normal form, as mantissa and scale.\<close>

definition make_dec :: "int \<Rightarrow> nat \<Rightarrow> int \<Rightarrow> int \<times> nat" where
  "make_dec m sc ex =
     (if int sc \<le> ex then (m * 10 ^ nat (ex - int sc), 0) else norm_dec m (nat (int sc - ex)))"

text \<open>
  \<open>lex_number\<close> reads a number literal: an optional minus, an integer part without a
  superfluous leading zero, an optional fraction, an optional exponent. It returns the
  value and the number of code units read.
\<close>

definition lex_number :: "jstring \<Rightarrow> (json \<times> nat) option" where
  "lex_number cs =
     (let neg = (take 1 cs = [45]);
          r0 = (if neg then drop 1 cs else cs);
          ip = takeWhile is_digit r0;
          r1 = dropWhile is_digit r0;
          has_frac = (take 1 r1 = [46]);
          fp = (if has_frac then takeWhile is_digit (drop 1 r1) else []);
          r2 = (if has_frac then dropWhile is_digit (drop 1 r1) else r1);
          has_exp = (take 1 r2 = [101] \<or> take 1 r2 = [69]);
          r3 = drop 1 r2;
          esign = (if take 1 r3 = [45] \<or> take 1 r3 = [43] then 1 else 0);
          ep = (if has_exp then takeWhile is_digit (drop esign r3) else []);
          ex = (if take 1 r3 = [45] then - int (digits_value ep) else int (digits_value ep));
          m = int (digits_value (ip @ fp));
          n = (if neg then 1 else 0) + length ip + (if has_frac then 1 + length fp else 0)
              + (if has_exp then 1 + esign + length ep else 0)
      in if ip = [] \<or> (1 < length ip \<and> hd ip = 48) \<or> (has_frac \<and> fp = [])
            \<or> (has_exp \<and> ep = [])
         then None
         else Some (case make_dec (if neg then - m else m) (length fp) (if has_exp then ex else 0)
                    of (m', k') \<Rightarrow> JNum m' k', n))"

function lex :: "jstring \<Rightarrow> token list option" where
  "lex [] = Some []"
| "lex (c # cs) =
     (if is_ws c then lex cs
      else if c = 123 then map_option (Cons TLBrace) (lex cs)
      else if c = 125 then map_option (Cons TRBrace) (lex cs)
      else if c = 91 then map_option (Cons TLBrack) (lex cs)
      else if c = 93 then map_option (Cons TRBrack) (lex cs)
      else if c = 58 then map_option (Cons TColon) (lex cs)
      else if c = 44 then map_option (Cons TComma) (lex cs)
      else if c = 34 then
        (case lex_string cs of
           None \<Rightarrow> None
         | Some (s, n) \<Rightarrow> map_option (Cons (TValue (JStr s))) (lex (drop n cs)))
      else if c = 45 \<or> is_digit c then
        (case lex_number (c # cs) of
           None \<Rightarrow> None
         | Some (v, n) \<Rightarrow> map_option (Cons (TValue v)) (lex (drop (n - 1) cs)))
      else if c = 116 \<and> take 3 cs = U ''rue'' then
        map_option (Cons (TValue (JBool True))) (lex (drop 3 cs))
      else if c = 102 \<and> take 4 cs = U ''alse'' then
        map_option (Cons (TValue (JBool False))) (lex (drop 4 cs))
      else if c = 110 \<and> take 3 cs = U ''ull'' then
        map_option (Cons (TValue JNull)) (lex (drop 3 cs))
      else None)"
  by pat_completeness auto
termination
  by (relation "measure length") auto

declare lex.simps [simp del]

subsection \<open>The parser\<close>

text \<open>
  The tokens are read from left to right against a stack of the arrays and objects still
  open. \<open>FKey kvs k\<close> is an object that has read the key \<open>k\<close> and waits for its value; a
  repeated key overwrites the earlier value in place, as \<open>JSON.parse\<close> does.
\<close>

datatype frame = FArr "json list" | FObj "(jstring \<times> json) list" | FKey "(jstring \<times> json) list" jstring

datatype pstate =
    PValue | PArrStart | PObjStart | PAfterElem | PAfterMember | PKey | PColon | PDone json

fun push_value :: "json \<Rightarrow> frame list \<Rightarrow> (pstate \<times> frame list) option" where
  "push_value v [] = Some (PDone v, [])"
| "push_value v (FArr xs # st) = Some (PAfterElem, FArr (xs @ [v]) # st)"
| "push_value v (FKey kvs k # st) = Some (PAfterMember, FObj (obj_put kvs k v) # st)"
| "push_value v (FObj kvs # st) = None"

fun parse_step :: "pstate \<times> frame list \<Rightarrow> token \<Rightarrow> (pstate \<times> frame list) option" where
  "parse_step (s, st) TLBrack =
     (if s = PValue \<or> s = PArrStart then Some (PArrStart, FArr [] # st) else None)"
| "parse_step (s, st) TLBrace =
     (if s = PValue \<or> s = PArrStart then Some (PObjStart, FObj [] # st) else None)"
| "parse_step (s, st) (TValue v) =
     (if s = PValue \<or> s = PArrStart then push_value v st
      else if s = PObjStart \<or> s = PKey then
        (case (v, st) of
           (JStr k, FObj kvs # st') \<Rightarrow> Some (PColon, FKey kvs k # st')
         | _ \<Rightarrow> None)
      else None)"
| "parse_step (s, st) TRBrack =
     (if s = PArrStart \<or> s = PAfterElem then
        (case st of FArr xs # st' \<Rightarrow> push_value (JArr xs) st' | _ \<Rightarrow> None)
      else None)"
| "parse_step (s, st) TRBrace =
     (if s = PObjStart \<or> s = PAfterMember then
        (case st of FObj kvs # st' \<Rightarrow> push_value (JObj kvs) st' | _ \<Rightarrow> None)
      else None)"
| "parse_step (s, st) TComma =
     (if s = PAfterElem then Some (PValue, st)
      else if s = PAfterMember then Some (PKey, st)
      else None)"
| "parse_step (s, st) TColon = (if s = PColon then Some (PValue, st) else None)"

fun parse_tokens :: "pstate \<times> frame list \<Rightarrow> token list \<Rightarrow> (pstate \<times> frame list) option" where
  "parse_tokens c [] = Some c"
| "parse_tokens c (t # ts) =
     (case parse_step c t of None \<Rightarrow> None | Some c' \<Rightarrow> parse_tokens c' ts)"

text \<open>\<open>JSON.parse(text)\<close>; \<open>None\<close> is the SyntaxError.\<close>

definition JSON_parse :: "jstring \<Rightarrow> json option" where
  "JSON_parse text =
     (case lex text of
        None \<Rightarrow> None
      | Some toks \<Rightarrow>
          (case parse_tokens (PValue, []) toks of
             Some (PDone v, []) \<Rightarrow> Some v
           | _ \<Rightarrow> None))"

subsection \<open>Conversion to a number\<close>

text \<open>
  The numbers arithmetic can produce: \<open>NaN\<close>, an infinity (\<open>Infinity True\<close> is the negative
  one) or a decimal.
\<close>

datatype jsnumber = NaN | Infinity bool | Dec int nat

text \<open>White space and line terminators, as \<open>trim\<close>, \<open>\s\<close> and number conversion see them.\<close>

definition is_space :: "nat \<Rightarrow> bool" where
  "is_space c =
     (c = 9 \<or> c = 10 \<or> c = 11 \<or> c = 12 \<or> c = 13 \<or> c = 32 \<or> c = 160 \<or> c = 5760
      \<or> (8192 \<le> c \<and> c \<le> 8202) \<or> c = 8232 \<or> c = 8233 \<or> c = 8239 \<or> c = 8287
      \<or> c = 12288 \<or> c = 65279)"

definition trim :: "jstring \<Rightarrow> jstring" where
  "trim s = rev (dropWhile is_space (rev (dropWhile is_space s)))"

definition digit_val :: "nat \<Rightarrow> nat" where
  "digit_val d = (if is_digit d then d - 48 else if 97 \<le> d then d - 87 else d - 55)"

definition radix_literal :: "nat \<Rightarrow> jstring \<Rightarrow> jsnumber" where
  "radix_literal r ds =
     (if ds \<noteq> [] \<and> list_all (\<lambda>d. is_hex d \<and> digit_val d < r) ds
      then Dec (int (foldl (\<lambda>a d. r * a + digit_val d) 0 ds)) 0
      else NaN)"

definition str_decimal :: "jstring \<Rightarrow> jsnumber" where
  "str_decimal t =
     (let neg = (take 1 t = [45]);
          r0 = (if neg \<or> take 1 t = [43] then drop 1 t else t);
          ip = takeWhile is_digit r0;
          r1 = dropWhile is_digit r0;
          has_dot = (take 1 r1 = [46]);
          fp = (if has_dot then takeWhile is_digit (drop 1 r1) else []);
          r2 = (if has_dot then dropWhile is_digit (drop 1 r1) else r1);
          has_exp = (take 1 r2 = [101] \<or> take 1 r2 = [69]);
          r3 = drop 1 r2;
          esign = (if take 1 r3 = [45] \<or> take 1 r3 = [43] then 1 else 0);
          ep = (if has_exp then takeWhile is_digit (drop esign r3) else []);
          r4 = (if has_exp then dropWhile is_digit (drop esign r3) else r2);
          ex = (if take 1 r3 = [45] then - int (digits_value ep) else int (digits_value ep));
          m = int (digits_value (ip @ fp))
      in if r0 = U ''Infinity'' then Infinity neg
         else if (ip = [] \<and> fp = []) \<or> (has_exp \<and> ep = []) \<or> r4 \<noteq> [] then NaN
         else case make_dec (if neg then - m else m) (length fp) (if has_exp then ex else 0)
              of (m', k') \<Rightarrow> Dec m' k')"

definition StringToNumber :: "jstring \<Rightarrow> jsnumber" where
  "StringToNumber s =
     (let t = trim s
      in if t = [] then Dec 0 0
         else if take 2 t = U ''0x'' \<or> take 2 t = U ''0X'' then radix_literal 16 (drop 2 t)
         else if take 2 t = U ''0o'' \<or> take 2 t = U ''0O'' then radix_literal 8 (drop 2 t)
         else if take 2 t = U ''0b'' \<or> take 2 t = U ''0B'' then radix_literal 2 (drop 2 t)
         else str_decimal t)"

text \<open>\<open>None\<close> is the TypeError of a conversion that finds no primitive.\<close>

fun ToNumber :: "json option \<Rightarrow> jsnumber option" where
  "ToNumber None = Some NaN"
| "ToNumber (Some JNull) = Some (Dec 0 0)"
| "ToNumber (Some (JBool b)) = Some (Dec (if b then 1 else 0) 0)"
| "ToNumber (Some (JNum m k)) = Some (Dec m k)"
| "ToNumber (Some (JStr s)) = Some (StringToNumber s)"
| "ToNumber (Some (JArr xs)) = map_option StringToNumber (ToString (JArr xs))"
| "ToNumber (Some (JObj kvs)) = map_option StringToNumber (ToString (JObj kvs))"

fun jsnumber_toString :: "jsnumber \<Rightarrow> jstring" where
  "jsnumber_toString NaN = U ''NaN''"
| "jsnumber_toString (Infinity neg) = (if neg then U ''-Infinity'' else U ''Infinity'')"
| "jsnumber_toString (Dec m k) = Number_toString m k"

text \<open>\<open>x <= n\<close> for an integer \<open>n\<close>.\<close>

fun number_le :: "jsnumber \<Rightarrow> int \<Rightarrow> bool" where
  "number_le NaN n = False"
| "number_le (Infinity neg) n = neg"
| "number_le (Dec m k) n = (m \<le> n * 10 ^ k)"

text \<open>The property \<open>length\<close> of a value.\<close>

fun js_length :: "json \<Rightarrow> json option" where
  "js_length (JStr s) = Some (JNum (int (length s)) 0)"
| "js_length (JArr xs) = Some (JNum (int (length xs)) 0)"
| "js_length (JObj kvs) = map_of kvs (U ''length'')"
| "js_length v = None"

section \<open>The result formatter\<close>

text \<open>
  \<open>tryFormatJson\<close>: a text that does not parse, or parses to a primitive, gives \<open>None\<close>
  (\<open>null\<close>); an object or an array is truncated, cleaned, shortened and pretty-printed.
  The default arguments are \<open>maxItems = 3\<close>, \<open>insideArray = false\<close>, \<open>maxLen = 100\<close>.
\<close>

definition tryFormatJson :: "jstring \<Rightarrow> jstring option" where
  "tryFormatJson text =
     (case JSON_parse text of
        None \<Rightarrow> None
      | Some parsed \<Rightarrow>
          if parsed = JNull \<or> \<not> is_object parsed then None
          else
            let truncated = truncateArrays parsed 3;
                cleaned = removeNoiseFields truncated False;
                shortened = truncateStringValues cleaned 100
            in Some (JSON_stringify_indent [] shortened))"

record Colors =
  RESET :: jstring
  BOLD :: jstring
  DIM :: jstring
  RED :: jstring
  GREEN :: jstring
  YELLOW :: jstring
  BLUE :: jstring
  MAGENTA :: jstring
  CYAN :: jstring
  WHITE :: jstring

definition createColors :: "bool \<Rightarrow> Colors" where
  "createColors isTTY =
     (if isTTY then
        \<lparr>RESET = 27 # U ''[0m'', BOLD = 27 # U ''[1m'', DIM = 27 # U ''[2m'',
         RED = 27 # U ''[31m'', GREEN = 27 # U ''[32m'', YELLOW = 27 # U ''[33m'',
         BLUE = 27 # U ''[34m'', MAGENTA = 27 # U ''[35m'', CYAN = 27 # U ''[36m'',
         WHITE = 27 # U ''[37m''\<rparr>
      else
        \<lparr>RESET = [], BOLD = [], DIM = [], RED = [], GREEN = [], YELLOW = [], BLUE = [],
         MAGENTA = [], CYAN = [], WHITE = []\<rparr>)"

definition PLAIN :: Colors where
  "PLAIN = \<lparr>RESET = [], BOLD = [], DIM = [], RED = [], GREEN = [], YELLOW = [], BLUE = [],
            MAGENTA = [], CYAN = [], WHITE = []\<rparr>"

definition startsWith :: "jstring \<Rightarrow> jstring \<Rightarrow> bool" where
  "startsWith s p = (take (length p) s = p)"

definition endsWith :: "jstring \<Rightarrow> jstring \<Rightarrow> bool" where
  "endsWith s p = (length p \<le> length s \<and> drop (length s - length p) s = p)"

definition methodColor :: "jstring \<Rightarrow> Colors \<Rightarrow> jstring" where
  "methodColor method colors =
     (if method = [] then WHITE colors
      else if startsWith method (U ''initialize'') then MAGENTA colors
      else if startsWith method (U ''tools/'') then GREEN colors
      else if startsWith method (U ''resources/'') then CYAN colors
      else if startsWith method (U ''prompts/'') then YELLOW colors
      else if startsWith method (U ''notifications/'') then BLUE colors
      else WHITE colors)"

text \<open>\<open>truncate(str, max)\<close> on a string (the name \<open>truncate\<close> belongs to the records).\<close>

definition truncate_str :: "jstring \<Rightarrow> int \<Rightarrow> jstring" where
  "truncate_str str maxlen =
     (if int (length str) \<le> maxlen then str else slice0 str (maxlen - 3) @ U ''...'')"

text \<open>
  The sink: every \<open>logger.write(colored, plain)\<close> appends one record. A function that may
  raise returns the records written so far and how it ended.
\<close>

type_synonym log = "(jstring \<times> jstring) list"

datatype completion = Returned | Thrown

record PendingRequest =
  pr_method :: jstring
  pr_toolName :: "json option"
  pr_ts :: int

record FormatterContext =
  colors :: Colors
  plainColors :: Colors

text \<open>
  An element of \<open>names.join(", ")\<close>: \<open>undefined\<close> and \<open>null\<close> give the empty string.
\<close>

definition element_string :: "json option \<Rightarrow> jstring option" where
  "element_string v = (case v of None \<Rightarrow> Some [] | Some JNull \<Rightarrow> Some [] | Some x \<Rightarrow> ToString x)"

definition join_values :: "jstring \<Rightarrow> json option list \<Rightarrow> jstring option" where
  "join_values sep xs = map_option (join sep) (those_strings (map element_string xs))"

text \<open>The summary of a list of names: all of them up to eight, the first six beyond.\<close>

definition names_summary :: "json option list \<Rightarrow> jstring option" where
  "names_summary names =
     (if length names \<le> 8 then join_values (U '', '') names
      else map_option
             (\<lambda>s. s @ U '', ... +'' @ Number_toString (int (length names) - 6) 0 @ U '' more'')
             (join_values (U '', '') (slice0 names 6)))"

text \<open>\<open>items.map(f)\<close> where \<open>f\<close> reads a property: a \<open>null\<close> item raises.\<close>

definition map_items :: "(json \<Rightarrow> json option) \<Rightarrow> json list \<Rightarrow> json option list option" where
  "map_items f items = (if JNull \<in> set items then None else Some (map f items))"

definition list_record :: "jstring \<Rightarrow> jstring \<Rightarrow> Colors \<Rightarrow> nat \<Rightarrow> jstring \<Rightarrow> jstring \<times> jstring" where
  "list_record color kind c n summary =
     (U ''    '' @ color @ U ''('' @ Number_toString (int n) 0 @ U '' '' @ kind @ U '': ''
        @ summary @ U '')'' @ RESET c,
      U ''    ('' @ Number_toString (int n) 0 @ U '' '' @ kind @ U '': '' @ summary @ U '')'')"

text \<open>\<open>x || y\<close> on values that may be \<open>undefined\<close>.\<close>

definition or_else :: "json option \<Rightarrow> json option \<Rightarrow> json option" where
  "or_else x y = (if truthy x then x else y)"

text \<open>
  The text of \<open>${truncate(uri)}\<close> for a value that need not be a string: an array is
  sliced like a string and then joined, and any other value has no callable \<open>slice\<close>.
\<close>

definition truncate_value :: "json \<Rightarrow> int \<Rightarrow> jstring option" where
  "truncate_value str maxlen =
     (case str of
        JStr s \<Rightarrow> Some (truncate_str s maxlen)
      | JArr xs \<Rightarrow>
          if int (length xs) \<le> maxlen then ToString (JArr xs)
          else map_option (\<lambda>s. s @ U ''...'') (ToString (JArr (slice0 xs (maxlen - 3))))
      | _ \<Rightarrow>
          (case ToNumber (js_length str) of
             None \<Rightarrow> None
           | Some n \<Rightarrow> if number_le n maxlen then ToString str else None))"

text \<open>\<open>Math.round((n * 3) / 4 / 1024)\<close>.\<close>

fun image_kb :: "jsnumber \<Rightarrow> jsnumber" where
  "image_kb NaN = NaN"
| "image_kb (Infinity neg) = Infinity neg"
| "image_kb (Dec m k) = Dec ((6 * m + 4096 * 10 ^ k) div (8192 * 10 ^ k)) 0"

text \<open>One content block of a \<open>tools/call\<close> result: the body of the loop.\<close>

definition formatBlock :: "Colors \<Rightarrow> json \<Rightarrow> log \<times> completion" where
  "formatBlock c block =
     (if block = JNull then ([], Thrown)
      else if get_prop block (U ''type'') = Some (JStr (U ''text'')) then
        (let text = get_prop block (U ''text'');
             formatted = (case ToString_opt text of None \<Rightarrow> None | Some s \<Rightarrow> tryFormatJson s)
         in case formatted of
              Some f \<Rightarrow>
                ((U ''    '' @ DIM c @ U ''[text]'' @ RESET c, U ''    [text]'') #
                 map (\<lambda>line. (U ''    '' @ DIM c @ U ''    '' @ line @ RESET c,
                               U ''        '' @ line))
                     (split_on 10 f),
                 Returned)
            | None \<Rightarrow>
                (case text of
                   Some (JStr t) \<Rightarrow>
                     (map (\<lambda>line. (U ''    '' @ DIM c @ U ''[text]'' @ RESET c @ U '' '' @ line,
                                   U ''    [text] '' @ line))
                          (split_on 10 t),
                      Returned)
                 | _ \<Rightarrow> ([], Thrown)))
      else if get_prop block (U ''type'') = Some (JStr (U ''image'')) then
        (let data = get_prop block (U ''data'');
             size = (if truthy data
                     then map_option (\<lambda>n. jsnumber_toString (image_kb n) @ U ''KB'')
                            (ToNumber (js_length (the data)))
                     else Some (U ''?''));
             mime = ToString_opt (or_else (get_prop block (U ''mimeType'')) (Some (JStr (U ''?''))))
         in case (size, mime) of
              (Some sz, Some mt) \<Rightarrow>
                ([(U ''    '' @ DIM c @ U ''[image '' @ mt @ U '']'' @ RESET c @ U '' '' @ sz,
                   U ''    [image '' @ mt @ U ''] '' @ sz)],
                 Returned)
            | _ \<Rightarrow> ([], Thrown))
      else if get_prop block (U ''type'') = Some (JStr (U ''resource'')) then
        (let resource = get_prop block (U ''resource'');
             uri = or_else (case resource of None \<Rightarrow> None | Some JNull \<Rightarrow> None
                            | Some r \<Rightarrow> get_prop r (U ''uri''))
                     (Some (JStr (U ''?'')))
         in case truncate_value (the uri) 200 of
              Some u \<Rightarrow>
                ([(U ''    '' @ DIM c @ U ''[resource]'' @ RESET c @ U '' '' @ u,
                   U ''    [resource] '' @ u)],
                 Returned)
            | None \<Rightarrow> ([], Thrown))
      else
        (let raw = truncate_str (JSON_stringify block) 200
         in case ToString_opt (or_else (get_prop block (U ''type'')) (Some (JStr (U ''?'')))) of
              Some ty \<Rightarrow>
                ([(U ''    '' @ DIM c @ U ''['' @ ty @ U '']'' @ RESET c @ U '' '' @ raw,
                   U ''    ['' @ ty @ U ''] '' @ raw)],
                 Returned)
            | None \<Rightarrow> ([], Thrown)))"

text \<open>The loop over the content blocks stops at the first block that raises.\<close>

fun formatBlocks :: "Colors \<Rightarrow> json list \<Rightarrow> log \<times> completion" where
  "formatBlocks c [] = ([], Returned)"
| "formatBlocks c (block # content) =
     (case formatBlock c block of
        (written, Thrown) \<Rightarrow> (written, Thrown)
      | (written, Returned) \<Rightarrow>
          (case formatBlocks c content of (rest, r) \<Rightarrow> (written @ rest, r)))"

fun is_array :: "json option \<Rightarrow> bool" where
  "is_array (Some (JArr xs)) = True"
| "is_array v = False"

fun array_items :: "json option \<Rightarrow> json list" where
  "array_items (Some (JArr xs)) = xs"
| "array_items v = []"

text \<open>\<open>x?.k\<close>: \<open>undefined\<close> when \<open>x\<close> is \<open>undefined\<close> or \<open>null\<close>.\<close>

fun opt_prop :: "json option \<Rightarrow> jstring \<Rightarrow> json option" where
  "opt_prop None k = None"
| "opt_prop (Some JNull) k = None"
| "opt_prop (Some v) k = get_prop v k"

text \<open>One of the three list summaries; \<open>names\<close> is \<open>None\<close> when \<open>map\<close> raised.\<close>

definition write_summary ::
  "jstring \<Rightarrow> jstring \<Rightarrow> Colors \<Rightarrow> nat \<Rightarrow> json option list option \<Rightarrow> log \<times> completion" where
  "write_summary color kind c n names =
     (case names of
        None \<Rightarrow> ([], Thrown)
      | Some ns \<Rightarrow>
          (case names_summary ns of
             None \<Rightarrow> ([], Thrown)
           | Some summary \<Rightarrow> ([list_record color kind c n summary], Returned)))"

definition formatResult ::
  "jstring \<Rightarrow> json option \<Rightarrow> PendingRequest option \<Rightarrow> FormatterContext \<Rightarrow> log \<times> completion" where
  "formatResult method result pending ctx =
     (if \<not> truthy result then ([], Returned)
      else
        let c = colors ctx; res = the result
        in if method = U ''tools/list'' \<and> is_array (get_prop res (U ''tools'')) then
             (let tools = array_items (get_prop res (U ''tools''))
              in write_summary (GREEN c) (U ''tools'') c (length tools)
                   (map_items (\<lambda>t. get_prop t (U ''name'')) tools))
           else if method = U ''resources/list'' \<and> is_array (get_prop res (U ''resources'')) then
             (let resources = array_items (get_prop res (U ''resources''))
              in write_summary (CYAN c) (U ''resources'') c (length resources)
                   (map_items (\<lambda>r. or_else (get_prop r (U ''name'')) (get_prop r (U ''uri'')))
                      resources))
           else if method = U ''prompts/list'' \<and> is_array (get_prop res (U ''prompts'')) then
             (let prompts = array_items (get_prop res (U ''prompts''))
              in write_summary (YELLOW c) (U ''prompts'') c (length prompts)
                   (map_items (\<lambda>p. get_prop p (U ''name'')) prompts))
           else if method = U ''tools/call'' \<and> is_array (get_prop res (U ''content'')) then
             (case formatBlocks c (array_items (get_prop res (U ''content''))) of
                (written, Thrown) \<Rightarrow> (written, Thrown)
              | (written, Returned) \<Rightarrow>
                  (if truthy (get_prop res (U ''isError''))
                   then written @ [(U ''    '' @ RED c @ U ''(isError: true)'' @ RESET c,
                                    U ''    (isError: true)'')]
                   else written,
                   Returned))
           else if method = U ''initialize'' \<and> truthy (get_prop res (U ''capabilities'')) then
             (let caps = join (U '', '') (Object_keys (the (get_prop res (U ''capabilities''))));
                  serverInfo = get_prop res (U ''serverInfo'');
                  name = ToString_opt (or_else (opt_prop serverInfo (U ''name'')) (Some (JStr (U ''?''))));
                  version = ToString_opt (or_else (opt_prop serverInfo (U ''version''))
                                            (Some (JStr (U ''?''))))
              in case (name, version) of
                   (Some nm, Some ver) \<Rightarrow>
                     ([(U ''    '' @ MAGENTA c @ nm @ U '' v'' @ ver @ RESET c
                          @ U ''  capabilities: '' @ caps,
                        U ''    '' @ nm @ U '' v'' @ ver @ U ''  capabilities: '' @ caps)],
                      Returned)
                 | _ \<Rightarrow> ([], Thrown))
           else
             (let raw = JSON_stringify res
              in if length raw > 2
                 then ([(U ''    '' @ DIM c @ truncate_str raw 300 @ RESET c,
                         U ''    '' @ truncate_str raw 300)],
                       Returned)
                 else ([], Returned)))"

section \<open>The message formatter\<close>

text \<open>
  The pending requests are a \<open>Map\<close> keyed by the request id. Keys are compared by
  \<open>SameValueZero\<close>: primitives by value, arrays and objects by identity. Every line is
  parsed afresh, so an id that is an array or an object is equal to no key stored
  before: \<open>get\<close> finds nothing, \<open>delete\<close> removes nothing and \<open>set\<close> adds a new entry.
\<close>

type_synonym pending_map = "(json \<times> PendingRequest) list"

definition Map_get :: "pending_map \<Rightarrow> json \<Rightarrow> PendingRequest option" where
  "Map_get m k = (if is_object k then None else map_of m k)"

definition Map_set :: "pending_map \<Rightarrow> json \<Rightarrow> PendingRequest \<Rightarrow> pending_map" where
  "Map_set m k v =
     (if is_object k \<or> k \<notin> fst ` set m then m @ [(k, v)]
      else map (\<lambda>e. if fst e = k then (k, v) else e) m)"

definition Map_delete :: "pending_map \<Rightarrow> json \<Rightarrow> pending_map" where
  "Map_delete m k = (if is_object k then m else filter (\<lambda>e. fst e \<noteq> k) m)"

record MessageContext =
  mc_colors :: Colors
  mc_plainColors :: Colors
  pendingRequests :: pending_map

datatype direction = client | server

text \<open>The two readings of the clock: \<open>timestamp()\<close> and \<open>Date.now()\<close>.\<close>

record Clock =
  timestamp :: jstring
  now :: int

text \<open>
  \<open>methodColor(method, c)\<close> on a truthy value: a string is coloured; any other value has
  no callable \<open>startsWith\<close> and the call raises.
\<close>

definition methodColor_value :: "json option \<Rightarrow> Colors \<Rightarrow> jstring option" where
  "methodColor_value method c =
     (if \<not> truthy method then Some (WHITE c)
      else case method of Some (JStr s) \<Rightarrow> Some (methodColor s c) | _ \<Rightarrow> None)"

text \<open>The record of non-empty \<open>params\<close>: their JSON, truncated to 200.\<close>

definition params_record :: "Colors \<Rightarrow> json option \<Rightarrow> log" where
  "params_record c params =
     (if truthy params \<and> length (Object_keys (the params)) > 0
      then (let paramStr = truncate_str (JSON_stringify (the params)) 200
            in [(U ''    '' @ DIM c @ paramStr @ RESET c, U ''    '' @ paramStr)])
      else [])"

text \<open>
  The body of the \<open>try\<close> block. It returns the records written, the map as it stands and
  whether the block returned or raised. Reading \<open>msg.id\<close> raises when the line is the
  JSON \<open>null\<close>.
\<close>

definition formatMessage_try ::
  "Clock \<Rightarrow> jstring \<Rightarrow> direction \<Rightarrow> MessageContext \<Rightarrow> (log \<times> pending_map) \<times> completion" where
  "formatMessage_try clock json direction ctx =
     (let c = mc_colors ctx; pc = mc_plainColors ctx; pending_requests = pendingRequests ctx;
          isClient = (direction = client);
          arrow = (if isClient then [8594] else [8592]);
          label = (if isClient then U ''CLIENT'' else U ''SERVER'');
          dirColor = (if isClient then CYAN c else GREEN c);
          ts = timestamp clock
      in case JSON_parse json of
           None \<Rightarrow> (([], pending_requests), Thrown)
         | Some msg \<Rightarrow>
             let id = get_prop msg (U ''id''); method = get_prop msg (U ''method'')
             in if msg = JNull then (([], pending_requests), Thrown)
                else if truthy method \<and> id = None then
                  (case methodColor_value method c of
                     None \<Rightarrow> (([], pending_requests), Thrown)
                   | Some mc \<Rightarrow>
                       let m = (case method of Some (JStr s) \<Rightarrow> s | _ \<Rightarrow> []);
                           colored = DIM c @ ts @ RESET c @ U '' '' @ dirColor @ arrow @ U '' ''
                             @ label @ RESET c @ U ''  '' @ BLUE c @ U ''notification'' @ RESET c
                             @ U ''  '' @ mc @ m @ RESET c;
                           plain = ts @ U '' '' @ arrow @ U '' '' @ label @ U ''  notification  '' @ m
                       in (((colored, plain) # params_record c (get_prop msg (U ''params'')),
                            pending_requests), Returned))
                else if truthy method \<and> id \<noteq> None then
                  (case methodColor_value method c of
                     None \<Rightarrow> (([], pending_requests), Thrown)
                   | Some mc \<Rightarrow>
                       let m = (case method of Some (JStr s) \<Rightarrow> s | _ \<Rightarrow> []);
                           params = get_prop msg (U ''params'');
                           toolName = (if m = U ''tools/call'' \<and> truthy (opt_prop params (U ''name''))
                                       then opt_prop params (U ''name'') else None);
                           pending' = Map_set pending_requests (the id)
                                        \<lparr>pr_method = m, pr_toolName = toolName, pr_ts = now clock\<rparr>
                       in case (if truthy toolName then ToString_opt toolName else Some [],
                                ToString (the id)) of
                            (Some tn, Some ids) \<Rightarrow>
                              let extra = (if truthy toolName
                                           then U ''  '' @ BOLD c @ tn @ RESET c else []);
                                  extraPlain = (if truthy toolName then U ''  '' @ tn else []);
                                  colored = DIM c @ ts @ RESET c @ U '' '' @ dirColor @ arrow
                                    @ U '' '' @ label @ RESET c @ U ''  '' @ WHITE c @ U ''request''
                                    @ RESET c @ U ''  '' @ mc @ m @ RESET c @ extra @ U ''  ''
                                    @ DIM c @ U ''#'' @ ids @ RESET c;
                                  plain = ts @ U '' '' @ arrow @ U '' '' @ label @ U ''  request  ''
                                    @ m @ extraPlain @ U ''  #'' @ ids
                              in if m = U ''tools/call'' \<and> truthy (opt_prop params (U ''arguments''))
                                 then
                                   (((colored, plain) #
                                     map (\<lambda>line. (U ''    '' @ DIM c @ line @ RESET c,
                                                   U ''    '' @ line))
                                       (split_on 10
                                          (JSON_stringify_indent []
                                             (the (opt_prop params (U ''arguments''))))),
                                     pending'), Returned)
                                 else (((colored, plain) # params_record c params, pending'),
                                       Returned)
                          | _ \<Rightarrow> (([], pending'), Thrown))
                else if id \<noteq> None \<and> \<not> truthy method then
                  (let pending = Map_get pending_requests (the id);
                       reqMethod = (case pending of
                                      None \<Rightarrow> U ''unknown''
                                    | Some p \<Rightarrow> if pr_method p = [] then U ''unknown''
                                                else pr_method p);
                       mc = methodColor reqMethod c;
                       elapsed = (case pending of
                                    None \<Rightarrow> []
                                  | Some p \<Rightarrow> Number_toString (now clock - pr_ts p) 0 @ U ''ms'');
                       error = get_prop msg (U ''error'')
                   in case ToString (the id) of
                        None \<Rightarrow> (([], pending_requests), Thrown)
                      | Some ids \<Rightarrow>
                          if truthy error then
                            (let code = or_else (get_prop (the error) (U ''code''))
                                          (Some (JStr (U ''?'')));
                                 errMsg = or_else (get_prop (the error) (U ''message''))
                                            (Some (JStr (U ''Unknown error'')));
                                 colored = DIM c @ ts @ RESET c @ U '' '' @ dirColor @ arrow
                                   @ U '' '' @ label @ RESET c @ U ''  '' @ RED c @ BOLD c
                                   @ U ''ERROR'' @ RESET c @ U ''  '' @ mc @ U ''('' @ reqMethod
                                   @ U '' #'' @ ids @ U '')'' @ RESET c @ U ''  '' @ DIM c
                                   @ elapsed @ RESET c;
                                 plain = ts @ U '' '' @ arrow @ U '' '' @ label @ U ''  ERROR  (''
                                   @ reqMethod @ U '' #'' @ ids @ U '')  '' @ elapsed
                             in case (ToString_opt code, ToString_opt errMsg) of
                                  (Some cs, Some ms) \<Rightarrow>
                                    (([(colored, plain),
                                       (U ''    '' @ RED c @ U ''['' @ cs @ U ''] '' @ ms @ RESET c,
                                        U ''    ['' @ cs @ U ''] '' @ ms)],
                                      Map_delete pending_requests (the id)), Returned)
                                | _ \<Rightarrow> (([(colored, plain)], pending_requests), Thrown))
                          else
                            (let colored = DIM c @ ts @ RESET c @ U '' '' @ dirColor @ arrow
                                   @ U '' '' @ label @ RESET c @ U ''  '' @ WHITE c
                                   @ U ''response'' @ RESET c @ U ''  '' @ mc @ reqMethod
                                   @ RESET c @ U ''  '' @ DIM c @ U ''#'' @ ids @ U ''  ''
                                   @ elapsed @ RESET c;
                                 plain = ts @ U '' '' @ arrow @ U '' '' @ label
                                   @ U ''  response  '' @ reqMethod @ U ''  #'' @ ids @ U ''  ''
                                   @ elapsed
                             in case formatResult reqMethod (get_prop msg (U ''result'')) pending
                                       \<lparr>colors = c, plainColors = pc\<rparr> of
                                  (written, Thrown) \<Rightarrow>
                                    (((colored, plain) # written, pending_requests), Thrown)
                                | (written, Returned) \<Rightarrow>
                                    (((colored, plain) # written,
                                      Map_delete pending_requests (the id)), Returned)))
                else
                  (let raw = truncate_str (trim json) 200
                   in (([(DIM c @ ts @ RESET c @ U '' '' @ dirColor @ arrow @ U '' '' @ label
                           @ RESET c @ U ''  '' @ DIM c @ raw @ RESET c,
                         ts @ U '' '' @ arrow @ U '' '' @ label @ U ''  '' @ raw)],
                        pending_requests), Returned)))"

text \<open>
  \<open>formatMessage\<close>: whatever the \<open>try\<close> block raises is caught, and the \<open>catch\<close> block
  writes the raw line. The result is the records written and the map afterwards.
\<close>

definition formatMessage ::
  "Clock \<Rightarrow> jstring \<Rightarrow> direction \<Rightarrow> MessageContext \<Rightarrow> log \<times> pending_map" where
  "formatMessage clock json direction ctx =
     (case formatMessage_try clock json direction ctx of
        ((written, pending'), Returned) \<Rightarrow> (written, pending')
      | ((written, pending'), Thrown) \<Rightarrow>
          (let c = mc_colors ctx;
               isClient = (direction = client);
               arrow = (if isClient then [8594] else [8592]);
               label = (if isClient then U ''CLIENT'' else U ''SERVER'');
               dirColor = (if isClient then CYAN c else GREEN c);
               ts = timestamp clock;
               raw = truncate_str (trim json) 200
           in (written @
                 [(DIM c @ ts @ RESET c @ U '' '' @ dirColor @ arrow @ U '' '' @ label @ RESET c
                     @ U ''  '' @ YELLOW c @ U ''[raw]'' @ RESET c @ U '' '' @ raw,
                   ts @ U '' '' @ arrow @ U '' '' @ label @ U ''  [raw] '' @ raw)],
               pending')))"

section \<open>The log colorizer\<close>

text \<open>
  The regular expressions of \<open>colorize\<close> are written as matchers: at a position, given
  the code unit before it (none at the start of the line) and the rest of the line, a
  matcher returns the length of the match that starts there. Every pattern matches at
  least one code unit, and none needs backtracking beyond what is written out.
\<close>

type_synonym matcher = "nat option \<Rightarrow> jstring \<Rightarrow> nat option"

definition is_word :: "nat \<Rightarrow> bool" where
  "is_word c = (is_digit c \<or> (65 \<le> c \<and> c \<le> 90) \<or> (97 \<le> c \<and> c \<le> 122) \<or> c = 95)"

text \<open>\<open>\b\<close>: exactly one of the two neighbours is a word character.\<close>

definition word_boundary :: "nat option \<Rightarrow> jstring \<Rightarrow> bool" where
  "word_boundary prev s =
     ((case prev of None \<Rightarrow> False | Some p \<Rightarrow> is_word p)
        \<noteq> (case s of [] \<Rightarrow> False | c # cs \<Rightarrow> is_word c))"

text \<open>
  \<open>s.replace(re, r)\<close>: the line is scanned from the left; a match is replaced and the scan
  goes on behind it when the expression is global, and stops otherwise.
\<close>

function replace_scan ::
  "bool \<Rightarrow> matcher \<Rightarrow> (jstring \<Rightarrow> jstring) \<Rightarrow> nat option \<Rightarrow> jstring \<Rightarrow> jstring" where
  "replace_scan global m r prev [] = []"
| "replace_scan global m r prev (c # cs) =
     (case m prev (c # cs) of
        Some (Suc n) \<Rightarrow>
          r (take (Suc n) (c # cs)) @
            (if global
             then replace_scan global m r (Some (last (take (Suc n) (c # cs)))) (drop n cs)
             else drop n cs)
      | _ \<Rightarrow> c # replace_scan global m r (Some c) cs)"
  by pat_completeness auto
termination
  by (relation "measure (\<lambda>(g, m, r, prev, s). length s)") auto

declare replace_scan.simps [simp del]

definition wrap :: "jstring \<Rightarrow> jstring \<Rightarrow> jstring \<Rightarrow> jstring" where
  "wrap before after x = before @ x @ after"

text \<open>\<open>^\d{2}:\d{2}:\d{2}\.\d{3}\<close>, at the start of the line only.\<close>

definition m_timestamp :: matcher where
  "m_timestamp prev s =
     (if prev = None \<and> 12 \<le> length s
         \<and> list_all2 (\<lambda>p c. p c)
              [is_digit, is_digit, (\<lambda>c. c = 58), is_digit, is_digit, (\<lambda>c. c = 58),
               is_digit, is_digit, (\<lambda>c. c = 46), is_digit, is_digit, is_digit]
              (take 12 s)
      then Some 12 else None)"

text \<open>A literal text.\<close>

definition m_literal :: "jstring \<Rightarrow> matcher" where
  "m_literal lit prev s = (if startsWith s lit then Some (length lit) else None)"

text \<open>\<open>\bw\b\<close> for a word \<open>w\<close>.\<close>

definition m_word :: "jstring \<Rightarrow> matcher" where
  "m_word w prev s =
     (if word_boundary prev s \<and> startsWith s w
         \<and> word_boundary (Some (last w)) (drop (length w) s)
      then Some (length w) else None)"

text \<open>\<open>\bw\w*\<close>.\<close>

definition m_word_prefix :: "jstring \<Rightarrow> matcher" where
  "m_word_prefix w prev s =
     (if word_boundary prev s \<and> startsWith s w
      then Some (length w + length (takeWhile is_word (drop (length w) s))) else None)"

text \<open>\<open>\bw\S+\<close>.\<close>

definition m_family :: "jstring \<Rightarrow> matcher" where
  "m_family w prev s =
     (if word_boundary prev s \<and> startsWith s w
         \<and> takeWhile (\<lambda>c. \<not> is_space c) (drop (length w) s) \<noteq> []
      then Some (length w + length (takeWhile (\<lambda>c. \<not> is_space c) (drop (length w) s)))
      else None)"

text \<open>\<open>#\d+\<close>.\<close>

definition m_id :: matcher where
  "m_id prev s =
     (if take 1 s = U ''#'' \<and> takeWhile is_digit (drop 1 s) \<noteq> []
      then Some (1 + length (takeWhile is_digit (drop 1 s))) else None)"

text \<open>\<open>\d+ms\<close>.\<close>

definition m_elapsed :: matcher where
  "m_elapsed prev s =
     (if takeWhile is_digit s \<noteq> [] \<and> startsWith (dropWhile is_digit s) (U ''ms'')
      then Some (length (takeWhile is_digit s) + 2) else None)"

text \<open>\<open>/^\s+\[[-\d]+\]/.test(line)\<close>.\<close>

definition error_detail :: "jstring \<Rightarrow> bool" where
  "error_detail line =
     (let r1 = dropWhile is_space line;
          r2 = dropWhile (\<lambda>c. c = 45 \<or> is_digit c) (drop 1 r1)
      in takeWhile is_space line \<noteq> [] \<and> take 1 r1 = U ''[''
         \<and> takeWhile (\<lambda>c. c = 45 \<or> is_digit c) (drop 1 r1) \<noteq> [] \<and> take 1 r2 = U '']'')"

definition ansi :: "string \<Rightarrow> jstring" where
  "ansi code = 27 # U ''['' @ U code @ U ''m''"

text \<open>The twelve replacements, in the order of the source.\<close>

definition colorize_passes :: "jstring \<Rightarrow> jstring" where
  "colorize_passes line0 =
     (let line = replace_scan False m_timestamp (wrap (ansi ''2'') (ansi ''0'')) None line0;
          line = replace_scan True (m_literal ([8594] @ U '' CLIENT''))
                   (wrap (ansi ''36'' @ ansi ''1'') (ansi ''0'')) None line;
          line = replace_scan True (m_literal ([8592] @ U '' SERVER''))
                   (wrap (ansi ''32'' @ ansi ''1'') (ansi ''0'')) None line;
          line = replace_scan True (m_word (U ''ERROR''))
                   (wrap (ansi ''31'' @ ansi ''1'') (ansi ''0'')) None line;
          line = replace_scan False (m_word (U ''notification''))
                   (wrap (ansi ''34'') (ansi ''0'')) None line;
          line = replace_scan False (m_word (U ''request''))
                   (wrap (ansi ''37'') (ansi ''0'')) None line;
          line = replace_scan False (m_word (U ''response''))
                   (wrap (ansi ''37'') (ansi ''0'')) None line;
          line = replace_scan True (m_word_prefix (U ''initialize''))
                   (wrap (ansi ''35'') (ansi ''0'')) None line;
          line = replace_scan True (m_family (U ''tools/''))
                   (wrap (ansi ''32'') (ansi ''0'')) None line;
          line = replace_scan True (m_family (U ''resources/''))
                   (wrap (ansi ''36'') (ansi ''0'')) None line;
          line = replace_scan True (m_family (U ''prompts/''))
                   (wrap (ansi ''33'') (ansi ''0'')) None line;
          line = replace_scan True (m_family (U ''notifications/''))
                   (wrap (ansi ''34'') (ansi ''0'')) None line;
          line = replace_scan True m_id (wrap (ansi ''2'') (ansi ''0'')) None line;
          line = replace_scan True m_elapsed (wrap (ansi ''2'') (ansi ''0'')) None line
      in line)"

definition colorize :: "jstring \<Rightarrow> bool \<Rightarrow> jstring" where
  "colorize line0 useColor =
     (if \<not> useColor then line0
      else
        let line = colorize_passes line0;
            line = (if startsWith line (U ''    '') then ansi ''2'' @ line @ ansi ''0'' else line);
            line = (if startsWith line (U ''[server stderr]'')
                    then ansi ''2'' @ line @ ansi ''0'' else line);
            line = (if error_detail line then ansi ''31'' @ line @ ansi ''0'' else line)
        in line)"

text \<open>An error detail line as the message formatter writes it.\<close>

definition detail_line :: jstring where
  "detail_line = U ''    [-32601] Method not found''"

text \<open>A matcher that finds nothing at a position where the line has a space.\<close>

definition never_at_space :: "matcher \<Rightarrow> bool" where
  "never_at_space m = (\<forall>prev cs. m prev (32 # cs) = None)"

section \<open>The newest log file\<close>

text \<open>
  The file system enters \<open>findLatestLog\<close> through three functions: \<open>readdirSync\<close> lists a
  directory, \<open>statSync\<close> gives the modification time \<open>mtimeMs\<close> of a path, each with \<open>None\<close>
  where the call raises, and \<open>join\<close> is \<open>path.join\<close>. The loop keeps the best path so far
  and its modification time, which starts at \<open>0\<close>.
\<close>

definition findLatestLog ::
  "(jstring \<Rightarrow> jstring list option) \<Rightarrow> (jstring \<Rightarrow> int option) \<Rightarrow> (jstring \<Rightarrow> jstring \<Rightarrow> jstring)
     \<Rightarrow> jstring \<Rightarrow> jstring option" where
  "findLatestLog readdirSync statSync join_path dir =
     (case readdirSync dir of
        None \<Rightarrow> None
      | Some entries \<Rightarrow>
          fst (fold (\<lambda>entry (latest, latestMtime).
                 if \<not> endsWith entry (U ''.log'') then (latest, latestMtime)
                 else
                   let fullPath = join_path dir entry
                   in case statSync fullPath of
                        None \<Rightarrow> (latest, latestMtime)
                      | Some mtimeMs \<Rightarrow>
                          if mtimeMs > latestMtime then (Some fullPath, mtimeMs)
                          else (latest, latestMtime))
               entries (None, 0)))"

text \<open>A directory for the examples: its listing, the modification times, the paths.\<close>

definition slash_join :: "jstring \<Rightarrow> jstring \<Rightarrow> jstring" where
  "slash_join dir entry = dir @ U ''/'' @ entry"

definition one_dir :: "jstring list \<Rightarrow> jstring \<Rightarrow> jstring list option" where
  "one_dir entries dir = (if dir = U ''/logs'' then Some entries else None)"

definition stat_of :: "(jstring \<times> int) list \<Rightarrow> jstring \<Rightarrow> int option" where
  "stat_of files path = map_of (map (\<lambda>(name, t). (slash_join (U ''/logs'') name, t)) files) path"

text \<open>The body of the loop, for reasoning about the \<open>fold\<close>.\<close>

definition latest_step ::
  "(jstring \<Rightarrow> int option) \<Rightarrow> (jstring \<Rightarrow> jstring \<Rightarrow> jstring) \<Rightarrow> jstring \<Rightarrow> jstring
     \<Rightarrow> jstring option \<times> int \<Rightarrow> jstring option \<times> int" where
  "latest_step statSync join_path dir entry =
     (\<lambda>(latest, latestMtime).
        if \<not> endsWith entry (U ''.log'') then (latest, latestMtime)
        else
          let fullPath = join_path dir entry
          in case statSync fullPath of
               None \<Rightarrow> (latest, latestMtime)
             | Some mtimeMs \<Rightarrow>
                 if mtimeMs > latestMtime then (Some fullPath, mtimeMs)
                 else (latest, latestMtime))"

section \<open>Predicates and inputs of the properties\<close>

text \<open>Every array inside a value, at any depth, has at most \<open>b\<close> elements.\<close>

function arrays_within :: "int \<Rightarrow> json \<Rightarrow> bool" where
  "arrays_within b (JArr xs) = (int (length xs) \<le> b \<and> (\<forall>x \<in> set xs. arrays_within b x))"
| "arrays_within b (JObj kvs) = (\<forall>kv \<in> set kvs. arrays_within b (snd kv))"
| "arrays_within b JNull = True"
| "arrays_within b (JBool v) = True"
| "arrays_within b (JNum m k) = True"
| "arrays_within b (JStr s) = True"
  by pat_completeness auto
termination
  by (relation "measure (\<lambda>(b, v). size v)")
     (auto simp: less_Suc_eq_le dest!: json_size_elem json_size_entry)

text \<open>The two lines of the round trip: a \<open>tools/list\<close> request and its response.\<close>

definition request_line :: jstring where
  "request_line = U ''{\"jsonrpc\":\"2.0\",\"id\":1,\"method\":\"tools/list\"}''"

definition response_line :: jstring where
  "response_line =
     U ''{\"jsonrpc\":\"2.0\",\"id\":1,\"result\":{\"tools\":[{\"name\":\"echo\"},{\"name\":\"add\"}]}}''"







text \<open>
  The records of a text block: \<open>text_lines\<close> is one \<open>[text] <line>\<close> record per line of
  the text, \<open>pretty_lines\<close> the label \<open>[text]\<close> followed by one indented record per line
  of the pretty-printed JSON.
\<close>

definition text_lines :: "Colors \<Rightarrow> jstring \<Rightarrow> log" where
  "text_lines c t =
     map (\<lambda>line. (U ''    '' @ DIM c @ U ''[text]'' @ RESET c @ U '' '' @ line,
                   U ''    [text] '' @ line))
       (split_on 10 t)"

definition pretty_lines :: "Colors \<Rightarrow> jstring \<Rightarrow> log" where
  "pretty_lines c f =
     (U ''    '' @ DIM c @ U ''[text]'' @ RESET c, U ''    [text]'') #
     map (\<lambda>line. (U ''    '' @ DIM c @ U ''    '' @ line @ RESET c, U ''        '' @ line))
       (split_on 10 f)"

definition text_block :: "jstring \<Rightarrow> json" where
  "text_block t = JObj [(U ''type'', JStr (U ''text'')), (U ''text'', JStr t)]"

definition hello_world :: jstring where
  "hello_world = U ''hello'' @ [10] @ U ''world''"

text \<open>An image block of 4096 base64 characters, and one of four.\<close>

definition image_block :: json where
  "image_block = JObj [(U ''type'', JStr (U ''image'')), (U ''mimeType'', JStr (U ''image/png'')),
                       (U ''data'', JStr (replicate 4096 65))]"

definition small_image_block :: json where
  "small_image_block = JObj [(U ''type'', JStr (U ''image'')), (U ''data'', JStr (U ''AAAA''))]"

text \<open>An error response, and a \<open>tools/call\<close> response whose text block holds a number.\<close>

definition error_line :: jstring where
  "error_line =
     U ''{\"jsonrpc\":\"2.0\",\"id\":7,\"error\":{\"code\":-32601,\"message\":\"Method not found\"}}''"

definition bad_response_line :: jstring where
  "bad_response_line =
     U ''{\"jsonrpc\":\"2.0\",\"id\":1,\"result\":{\"content\":[{\"type\":\"text\",\"text\":42}]}}''"

definition call_pending :: pending_map where
  "call_pending =
     [(JNum 1 0, \<lparr>pr_method = U ''tools/call'', pr_toolName = Some (JStr (U ''echo'')), pr_ts = 0\<rparr>)]"


section \<open>Literals\<close>

lemma U_eq_iff [simp]: "(U a = U b) = (a = b)"
  by (simp add: U_def inj_map_eq_map inj_def)

lemma U_Nil_iff [simp]: "(U a = []) = (a = [])" "([] = U a) = (a = [])"
  by (auto simp: U_def)

lemma U_append [simp]: "U a @ U b = U (a @ b)" "U a @ U b @ r = U (a @ b) @ r"
  by (simp_all add: U_def)

lemma U_length [simp]: "length (U a) = length a"
  by (simp add: U_def)

lemma U_take [simp]: "take n (U a) = U (take n a)"
  by (simp add: U_def take_map)

lemma Number_toString_1: "Number_toString 1 0 = U ''1''"
  by code_simp

lemma Number_toString_2: "Number_toString 2 0 = U ''2''"
  by code_simp

section \<open>Properties of object assignment\<close>

lemma obj_put_entries: "kv \<in> set (obj_put kvs k v) \<Longrightarrow> kv = (k, v) \<or> kv \<in> set kvs"
  by (auto simp: obj_put_def split: if_splits option.splits dest: set_takeWhileD set_dropWhileD)

lemma obj_assign_entries: "kv \<in> set (obj_assign kvs k v) \<Longrightarrow> kv = (k, v) \<or> kv \<in> set kvs"
  by (auto simp: obj_assign_def split: if_splits dest: obj_put_entries)

lemma fold_assign_values:
  assumes "\<forall>kv \<in> set acc. P (snd kv)" and "\<forall>kv \<in> set kvs. P (f (snd kv))"
  shows "\<forall>kv \<in> set (fold (\<lambda>kv result. obj_assign result (fst kv) (f (snd kv))) kvs acc). P (snd kv)"
  using assms
proof (induction kvs arbitrary: acc)
  case Nil
  then show ?case by simp
next
  case (Cons a kvs)
  have "\<forall>kv \<in> set (obj_assign acc (fst a) (f (snd a))). P (snd kv)"
    using Cons.prems by (auto dest!: obj_assign_entries)
  then show ?case using Cons by simp
qed













section \<open>Array truncation\<close>

lemma truncateArrays_within:
  "0 \<le> maxItems \<Longrightarrow> arrays_within (maxItems + 1) (truncateArrays v maxItems)"
proof (induction v maxItems rule: truncateArrays.induct)
  case (1 obj maxItems)
  have len: "int (length (slice0 obj maxItems)) \<le> maxItems"
    using 1(2) by (simp add: slice0_def)
  have "\<forall>x \<in> set (slice0 obj maxItems). arrays_within (maxItems + 1) (truncateArrays x maxItems)"
    using 1 by blast
  with len show ?case by (auto simp: Let_def truncateArrays.simps)
next
  case (2 obj maxItems)
  have "\<forall>kv \<in> set obj. arrays_within (maxItems + 1) (truncateArrays (snd kv) maxItems)"
    using 2 by blast
  then have "\<forall>kv \<in> set (fold (\<lambda>kv result.
                 obj_assign result (fst kv) (truncateArrays (snd kv) maxItems)) obj []).
               arrays_within (maxItems + 1) (snd kv)"
    by (intro fold_assign_values[where f="\<lambda>v. truncateArrays v maxItems"]) auto
  then show ?case by (simp add: truncateArrays.simps)
qed (simp_all add: truncateArrays.simps)

text \<open>
  C5. For every JSON value and every \<open>maxItems\<close> that is not negative, no array in the
  result of \<open>truncateArrays\<close> is longer than \<open>maxItems + 1\<close>, at any depth; and an array
  of length \<open>L > maxItems\<close> becomes its first \<open>maxItems\<close> elements, each truncated in turn,
  followed by one marker string \<open>... +N more\<close> whose number \<open>N\<close> is \<open>L - maxItems\<close>.
\<close>

theorem truncateArrays_bound_and_marker:
  assumes "0 \<le> maxItems"
  shows "arrays_within (maxItems + 1) (truncateArrays v maxItems)
       \<and> (int (length xs) > maxItems \<longrightarrow>
            truncateArrays (JArr xs) maxItems =
              JArr (map (\<lambda>item. truncateArrays item maxItems) (take (nat maxItems) xs) @
                [JStr (U ''... +'' @ Number_toString (int (length xs) - maxItems) 0
                         @ U '' more'')]))"
  using assms by (simp add: truncateArrays_within slice0_def truncateArrays.simps)

theorem truncateArrays_bound_and_marker_witness:
  "(0::int) \<le> 2 \<and> int (length [JNum 1 0, JNum 2 0, JNum 3 0, JNum 4 0, JNum 5 0]) > 2
   \<and> arrays_within (2 + 1)
        (truncateArrays (JArr [JNum 1 0, JNum 2 0, JNum 3 0, JNum 4 0, JNum 5 0]) 2)
   \<and> truncateArrays (JArr [JNum 1 0, JNum 2 0, JNum 3 0, JNum 4 0, JNum 5 0]) 2 =
       JArr [JNum 1 0, JNum 2 0, JStr (U ''... +3 more'')]"
proof -
  have m: "Number_toString 3 0 = U ''3''"
    by code_simp
  have t: "take (nat 2) [JNum 1 0, JNum 2 0, JNum 3 0, JNum 4 0, JNum 5 0] = [JNum 1 0, JNum 2 0]"
    by (simp add: numeral_2_eq_2)
  show ?thesis
    using truncateArrays_bound_and_marker
      [of 2 "JArr [JNum 1 0, JNum 2 0, JNum 3 0, JNum 4 0, JNum 5 0]"
          "[JNum 1 0, JNum 2 0, JNum 3 0, JNum 4 0, JNum 5 0]"]
    by (simp add: m t truncateArrays.simps)
qed

text \<open>
  With a negative \<open>maxItems\<close> the bound fails: \<open>slice(0, -1)\<close> keeps all but the last
  element and the marker is still appended, so three elements remain where the bound
  \<open>maxItems + 1\<close> is \<open>0\<close>.
\<close>

theorem truncateArrays_negative_counterexample:
  "truncateArrays (JArr [JNum 1 0, JNum 2 0, JNum 3 0]) (- 1) =
     JArr [JNum 1 0, JNum 2 0, JStr (U ''... +4 more'')]
   \<and> \<not> arrays_within (- 1 + 1) (truncateArrays (JArr [JNum 1 0, JNum 2 0, JNum 3 0]) (- 1))"
  by code_simp

section \<open>Noise removal\<close>










section \<open>The round trip of a request and its response\<close>

lemma parse_request_line:
  "JSON_parse request_line =
     Some (JObj [(U ''jsonrpc'', JStr (U ''2.0'')), (U ''id'', JNum 1 0),
                 (U ''method'', JStr (U ''tools/list''))])"
  by code_simp

lemma parse_response_line:
  "JSON_parse response_line =
     Some (JObj [(U ''jsonrpc'', JStr (U ''2.0'')), (U ''id'', JNum 1 0),
                 (U ''result'', JObj [(U ''tools'',
                    JArr [JObj [(U ''name'', JStr (U ''echo''))],
                          JObj [(U ''name'', JStr (U ''add''))]])])])"
  by code_simp


lemma request_step:
  "formatMessage clock1 request_line d1
     \<lparr>mc_colors = c, mc_plainColors = pc, pendingRequests = []\<rparr>
   = ([(DIM c @ timestamp clock1 @ RESET c @ U '' '' @ (if d1 = client then CYAN c else GREEN c)
         @ (if d1 = client then [8594] else [8592]) @ U '' ''
         @ (if d1 = client then U ''CLIENT'' else U ''SERVER'') @ RESET c @ U ''  '' @ WHITE c
         @ U ''request'' @ RESET c @ U ''  '' @ GREEN c @ U ''tools/list'' @ RESET c @ U ''  ''
         @ DIM c @ U ''#1'' @ RESET c,
       timestamp clock1 @ U '' '' @ (if d1 = client then [8594] else [8592]) @ U '' ''
         @ (if d1 = client then U ''CLIENT'' else U ''SERVER'') @ U ''  request  tools/list  #1'')],
      [(JNum 1 0, \<lparr>pr_method = U ''tools/list'', pr_toolName = None, pr_ts = now clock1\<rparr>)])"
  by (simp add: formatMessage_def formatMessage_try_def parse_request_line Let_def
        methodColor_value_def methodColor_def startsWith_def Map_set_def params_record_def
        Number_toString_1)

lemma names_summary_echo_add:
  "names_summary [Some (JStr (U ''echo'')), Some (JStr (U ''add''))] = Some (U ''echo, add'')"
  by code_simp

lemma format_tools_list:
  "formatResult (U ''tools/list'')
              (Some (JObj [(U ''tools'', JArr [JObj [(U ''name'', JStr (U ''echo''))],
                                               JObj [(U ''name'', JStr (U ''add''))]])]))
              p \<lparr>colors = c, plainColors = pc\<rparr>
            = ([(U ''    '' @ GREEN c @ U ''(2 tools: echo, add)'' @ RESET c,
                 U ''    (2 tools: echo, add)'')], Returned)"
    by (simp add: formatResult_def Let_def write_summary_def map_items_def
          names_summary_echo_add list_record_def Number_toString_2)

lemma response_step:
  "formatMessage clock2 response_line d2
     \<lparr>mc_colors = c, mc_plainColors = pc, pendingRequests =
        [(JNum 1 0, \<lparr>pr_method = U ''tools/list'', pr_toolName = None, pr_ts = t1\<rparr>)]\<rparr>
   = ([(DIM c @ timestamp clock2 @ RESET c @ U '' '' @ (if d2 = client then CYAN c else GREEN c)
         @ (if d2 = client then [8594] else [8592]) @ U '' ''
         @ (if d2 = client then U ''CLIENT'' else U ''SERVER'') @ RESET c @ U ''  '' @ WHITE c
         @ U ''response'' @ RESET c @ U ''  '' @ GREEN c @ U ''tools/list'' @ RESET c @ U ''  ''
         @ DIM c @ U ''#1  '' @ Number_toString (now clock2 - t1) 0 @ U ''ms'' @ RESET c,
       timestamp clock2 @ U '' '' @ (if d2 = client then [8594] else [8592]) @ U '' ''
         @ (if d2 = client then U ''CLIENT'' else U ''SERVER'')
         @ U ''  response  tools/list  #1  '' @ Number_toString (now clock2 - t1) 0 @ U ''ms''),
      (U ''    '' @ GREEN c @ U ''(2 tools: echo, add)'' @ RESET c,
       U ''    (2 tools: echo, add)'')],
      [])"
  by (simp add: formatMessage_def formatMessage_try_def parse_response_line Let_def
        Map_get_def Map_delete_def format_tools_list methodColor_def startsWith_def
        Number_toString_1)

text \<open>
  C1. From an empty map of pending requests, the \<open>tools/list\<close> request with id 1 writes
  one record, the request line with \<open>tools/list\<close> and \<open>#1\<close>, and registers id 1; its
  response then writes the response line with \<open>tools/list\<close>, \<open>#1\<close> and the elapsed time
  \<open><now2 - now1>ms\<close>, followed by the one summary \<open>(2 tools: echo, add)\<close>, and leaves the
  map without an entry for id 1. This holds for any clock, colours and directions; the
  plain renderings are given in full.
\<close>

theorem roundtrip_tools_list:
  "(let r1 = formatMessage clock1 request_line d1
               \<lparr>mc_colors = c, mc_plainColors = pc, pendingRequests = []\<rparr>;
        r2 = formatMessage clock2 response_line d2
               \<lparr>mc_colors = c, mc_plainColors = pc, pendingRequests = snd r1\<rparr>
    in map snd (fst r1) =
         [timestamp clock1 @ U '' '' @ (if d1 = client then [8594] else [8592]) @ U '' ''
            @ (if d1 = client then U ''CLIENT'' else U ''SERVER'')
            @ U ''  request  tools/list  #1'']
     \<and> Map_get (snd r1) (JNum 1 0)
         = Some \<lparr>pr_method = U ''tools/list'', pr_toolName = None, pr_ts = now clock1\<rparr>
     \<and> map snd (fst r2) =
         [timestamp clock2 @ U '' '' @ (if d2 = client then [8594] else [8592]) @ U '' ''
            @ (if d2 = client then U ''CLIENT'' else U ''SERVER'')
            @ U ''  response  tools/list  #1  ''
            @ Number_toString (now clock2 - now clock1) 0 @ U ''ms'',
          U ''    (2 tools: echo, add)'']
     \<and> snd r2 = [] \<and> Map_get (snd r2) (JNum 1 0) = None)"
  by (simp add: Let_def request_step response_step Map_get_def)


theorem roundtrip_tools_list_witness:
  "(let r1 = formatMessage \<lparr>timestamp = U ''12:34:56.200'', now = 1000\<rparr> request_line client
               \<lparr>mc_colors = PLAIN, mc_plainColors = PLAIN, pendingRequests = []\<rparr>;
        r2 = formatMessage \<lparr>timestamp = U ''12:34:56.250'', now = 1050\<rparr> response_line server
               \<lparr>mc_colors = PLAIN, mc_plainColors = PLAIN, pendingRequests = snd r1\<rparr>
    in map snd (fst r1) = [U ''12:34:56.200 '' @ [8594] @ U '' CLIENT  request  tools/list  #1'']
     \<and> map snd (fst r2) =
          [U ''12:34:56.250 '' @ [8592] @ U '' SERVER  response  tools/list  #1  50ms'',
           U ''    (2 tools: echo, add)'']
     \<and> Map_get (snd r2) (JNum 1 0) = None)"
proof -
  have e: "Number_toString 50 0 = U ''50''"
    by code_simp
  show ?thesis
    using roundtrip_tools_list
      [of "\<lparr>timestamp = U ''12:34:56.200'', now = 1000\<rparr>" client PLAIN PLAIN
          "\<lparr>timestamp = U ''12:34:56.250'', now = 1050\<rparr>" server]
    by (simp add: Let_def e Map_get_def)
qed

section \<open>Text that is JSON\<close>

lemma tryFormatJson_Some_iff:
  "(\<exists>s. tryFormatJson text = Some s) \<longleftrightarrow> (\<exists>v. JSON_parse text = Some v \<and> is_object v)"
  by (cases "JSON_parse text") (auto simp: tryFormatJson_def Let_def)

text \<open>
  C3. \<open>tryFormatJson\<close> returns none for a text that is not valid JSON and for valid JSON
  whose top-level value is \<open>null\<close>, a boolean, a number or a string; for an array or an
  object it returns the pretty-printed form of the truncated, cleaned and shortened
  value. It returns a string exactly when the text parses to an array or an object.
\<close>

theorem tryFormatJson_cases:
  "tryFormatJson text =
     (case JSON_parse text of
        None \<Rightarrow> None
      | Some JNull \<Rightarrow> None
      | Some (JBool b) \<Rightarrow> None
      | Some (JNum m k) \<Rightarrow> None
      | Some (JStr s) \<Rightarrow> None
      | Some (JArr xs) \<Rightarrow>
          Some (JSON_stringify_indent []
                  (truncateStringValues (removeNoiseFields (truncateArrays (JArr xs) 3) False) 100))
      | Some (JObj kvs) \<Rightarrow>
          Some (JSON_stringify_indent []
                  (truncateStringValues (removeNoiseFields (truncateArrays (JObj kvs) 3) False) 100)))
   \<and> ((\<exists>s. tryFormatJson text = Some s) \<longleftrightarrow> (\<exists>v. JSON_parse text = Some v \<and> is_object v))"
proof -
  have 1: "(\<exists>s. tryFormatJson text = Some s) \<longleftrightarrow> (\<exists>v. JSON_parse text = Some v \<and> is_object v)"
    by (rule tryFormatJson_Some_iff)
  have 2: "tryFormatJson text =
     (case JSON_parse text of
        None \<Rightarrow> None
      | Some JNull \<Rightarrow> None
      | Some (JBool b) \<Rightarrow> None
      | Some (JNum m k) \<Rightarrow> None
      | Some (JStr s) \<Rightarrow> None
      | Some (JArr xs) \<Rightarrow>
          Some (JSON_stringify_indent []
                  (truncateStringValues (removeNoiseFields (truncateArrays (JArr xs) 3) False) 100))
      | Some (JObj kvs) \<Rightarrow>
          Some (JSON_stringify_indent []
                  (truncateStringValues (removeNoiseFields (truncateArrays (JObj kvs) 3) False) 100)))"
  proof (cases "JSON_parse text")
    case None
    then show ?thesis by (simp add: tryFormatJson_def)
  next
    case (Some v)
    then show ?thesis by (cases v) (simp_all add: tryFormatJson_def Let_def)
  qed
  from 1 2 show ?thesis by blast
qed

lemma try_ex:
  "JSON_parse (U ''hello world'') = None"
  "JSON_parse (U ''42'') = Some (JNum 42 0)"
  "JSON_parse (U ''\"string\"'') = Some (JStr (U ''string''))"
  "JSON_parse (U ''true'') = Some (JBool True)"
  "JSON_parse (U ''null'') = Some JNull"
  "JSON_parse (U ''{\"a\":1}'') = Some (JObj [(U ''a'', JNum 1 0)])"
  "JSON_parse (U ''[1,2]'') = Some (JArr [JNum 1 0, JNum 2 0])"
  by code_simp+

lemma pretty_ex:
  "JSON_stringify_indent []
     (truncateStringValues (removeNoiseFields (truncateArrays (JObj [(U ''a'', JNum 1 0)]) 3) False) 100)
    = U ''{'' @ [10] @ U ''  \"a\": 1'' @ [10] @ U ''}''"
  "JSON_stringify_indent []
     (truncateStringValues (removeNoiseFields (truncateArrays (JArr [JNum 1 0, JNum 2 0]) 3) False) 100)
    = U ''['' @ [10] @ U ''  1,'' @ [10] @ U ''  2'' @ [10] @ U '']''"
  by code_simp+

theorem tryFormatJson_cases_witness:
  "tryFormatJson (U ''hello world'') = None \<and> tryFormatJson (U ''42'') = None
   \<and> tryFormatJson (U ''\"string\"'') = None \<and> tryFormatJson (U ''true'') = None
   \<and> tryFormatJson (U ''null'') = None
   \<and> tryFormatJson (U ''{\"a\":1}'') = Some (U ''{'' @ [10] @ U ''  \"a\": 1'' @ [10] @ U ''}'')
   \<and> tryFormatJson (U ''[1,2]'') = Some (U ''['' @ [10] @ U ''  1,'' @ [10] @ U ''  2'' @ [10] @ U '']'')"
  using tryFormatJson_cases [of "U ''hello world''"] tryFormatJson_cases [of "U ''42''"]
    tryFormatJson_cases [of "U ''\"string\"''"] tryFormatJson_cases [of "U ''true''"]
    tryFormatJson_cases [of "U ''null''"] tryFormatJson_cases [of "U ''{\"a\":1}''"]
    tryFormatJson_cases [of "U ''[1,2]''"]
  by (simp add: try_ex pretty_ex del: U_append)


section \<open>Text blocks of a tool result\<close>

lemma formatBlocks_append:
  "formatBlocks c (pre @ rest) =
     (case formatBlocks c pre of
        (w, Thrown) \<Rightarrow> (w, Thrown)
      | (w, Returned) \<Rightarrow> (case formatBlocks c rest of (r, x) \<Rightarrow> (w @ r, x)))"
  by (induction pre) (auto split: prod.splits completion.splits)

lemma formatBlock_text:
  assumes "get_prop block (U ''type'') = Some (JStr (U ''text''))"
    and "get_prop block (U ''text'') = Some (JStr t)"
  shows "formatBlock c block =
           (case tryFormatJson t of
              None \<Rightarrow> (text_lines c t, Returned)
            | Some f \<Rightarrow> (pretty_lines c f, Returned))"
proof -
  have "block \<noteq> JNull"
    using assms by auto
  then show ?thesis
    using assms
    by (simp add: formatBlock_def Let_def text_lines_def pretty_lines_def split: option.splits)
qed

text \<open>
  C2. For a content block of type \<open>text\<close> whose text is a string: when the text is not
  valid JSON or parses to a primitive, the block writes exactly one record
  \<open>[text] <line>\<close> per line of the text split on newlines, also in the middle of the loop
  over the blocks; when the text parses to an object or to an array, the block takes the
  pretty-printed path instead.
\<close>

theorem text_block_records:
  assumes "get_prop block (U ''type'') = Some (JStr (U ''text''))"
    and "get_prop block (U ''text'') = Some (JStr t)"
  shows "(\<not> (\<exists>v. JSON_parse t = Some v \<and> is_object v) \<longrightarrow>
            formatBlock c block = (text_lines c t, Returned)
            \<and> length (fst (formatBlock c block)) = length (split_on 10 t)
            \<and> (formatBlocks c pre = (w, Returned) \<longrightarrow>
                 fst (formatBlocks c (pre @ block # post))
                   = w @ text_lines c t @ fst (formatBlocks c post)))
       \<and> ((\<exists>v. JSON_parse t = Some v \<and> is_object v) \<longrightarrow>
            formatBlock c block = (pretty_lines c (the (tryFormatJson t)), Returned))"
proof (intro conjI impI)
  assume n: "\<not> (\<exists>v. JSON_parse t = Some v \<and> is_object v)"
  have "tryFormatJson t = None"
    using n tryFormatJson_Some_iff [of t] by (cases "tryFormatJson t") auto
  then show b: "formatBlock c block = (text_lines c t, Returned)"
    using formatBlock_text [OF assms, of c] by simp
  then show "length (fst (formatBlock c block)) = length (split_on 10 t)"
    by (simp add: text_lines_def)
  assume "formatBlocks c pre = (w, Returned)"
  then show "fst (formatBlocks c (pre @ block # post)) = w @ text_lines c t @ fst (formatBlocks c post)"
    using b by (simp add: formatBlocks_append split: prod.splits)
next
  assume "\<exists>v. JSON_parse t = Some v \<and> is_object v"
  then obtain f where "tryFormatJson t = Some f"
    using tryFormatJson_Some_iff [of t] by blast
  then show "formatBlock c block = (pretty_lines c (the (tryFormatJson t)), Returned)"
    using formatBlock_text [OF assms, of c] by simp
qed

lemma split_hello_world: "split_on 10 hello_world = [U ''hello'', U ''world'']"
  by code_simp

lemma parse_hello_world: "JSON_parse hello_world = None"
  by code_simp

lemma pretty_1_2:
  "map (\<lambda>line. U ''        '' @ line) (split_on 10 (the (tryFormatJson (U ''[1,2]''))))
     = [U ''        ['', U ''          1,'', U ''          2'', U ''        ]'']"
  by code_simp

theorem text_block_records_witness:
  "get_prop (text_block hello_world) (U ''type'') = Some (JStr (U ''text''))
   \<and> get_prop (text_block hello_world) (U ''text'') = Some (JStr hello_world)
   \<and> \<not> (\<exists>v. JSON_parse hello_world = Some v \<and> is_object v)
   \<and> map snd (fst (formatBlock PLAIN (text_block hello_world)))
       = [U ''    [text] hello'', U ''    [text] world'']
   \<and> (\<exists>v. JSON_parse (U ''[1,2]'') = Some v \<and> is_object v)
   \<and> map snd (fst (formatBlock PLAIN (text_block (U ''[1,2]''))))
       = [U ''    [text]'', U ''        ['', U ''          1,'', U ''          2'', U ''        ]'']"
proof -
  have ty: "get_prop (text_block t) (U ''type'') = Some (JStr (U ''text''))"
    and tx: "get_prop (text_block t) (U ''text'') = Some (JStr t)" for t
    by (simp_all add: text_block_def)
  have n: "\<not> (\<exists>v. JSON_parse hello_world = Some v \<and> is_object v)"
    by (simp add: parse_hello_world)
  have a: "map snd (fst (formatBlock PLAIN (text_block hello_world)))
       = [U ''    [text] hello'', U ''    [text] world'']"
    using text_block_records [OF ty tx, of hello_world PLAIN] n
    by (simp add: text_lines_def split_hello_world)
  have y: "\<exists>v. JSON_parse (U ''[1,2]'') = Some v \<and> is_object v"
    by (simp add: try_ex)
  have b: "map snd (fst (formatBlock PLAIN (text_block (U ''[1,2]''))))
       = [U ''    [text]'', U ''        ['', U ''          1,'', U ''          2'', U ''        ]'']"
    using text_block_records [OF ty tx, of "U ''[1,2]''" PLAIN] y
    by (simp add: pretty_lines_def pretty_1_2 o_def)
  show ?thesis
    using a b ty tx n y by blast
qed

text \<open>
  A text that parses to an array is not split into \<open>[text] <line>\<close> records: \<open>[1,2]\<close>
  takes the pretty-printed path, since \<open>typeof\<close> of an array is \<open>"object"\<close>.
\<close>

theorem text_block_array_counterexample:
  "JSON_parse (U ''[1,2]'') = Some (JArr [JNum 1 0, JNum 2 0])
   \<and> formatResult (U ''tools/call'')
        (Some (JObj [(U ''content'', JArr [text_block (U ''[1,2]'')])])) None
        \<lparr>colors = PLAIN, plainColors = PLAIN\<rparr>
      = ([(U ''    [text]'', U ''    [text]''), (U ''        ['', U ''        [''),
          (U ''          1,'', U ''          1,''), (U ''          2'', U ''          2''),
          (U ''        ]'', U ''        ]'')], Returned)
   \<and> formatResult (U ''tools/call'')
        (Some (JObj [(U ''content'', JArr [text_block (U ''[1,2]'')])])) None
        \<lparr>colors = PLAIN, plainColors = PLAIN\<rparr>
      \<noteq> ([(U ''    [text] [1,2]'', U ''    [text] [1,2]'')], Returned)"
  by code_simp

section \<open>Image blocks\<close>

lemma image_kb_arith: "(6 * m + 4096) div 8192 = (3 * m + 2048) div (4096::int)"
proof -
  have "(6 * m + 4096) div 8192 = (2 * (3 * m + 2048)) div (2 * 4096)"
    by simp
  also have "\<dots> = (3 * m + 2048) div 4096"
    by (rule div_mult_mult1) simp
  finally show ?thesis .
qed

text \<open>
  C9. A content block of type \<open>image\<close> writes exactly one record
  \<open>[image <mimeType or ?>] <size>KB\<close>. For a non-empty data string of length \<open>len\<close> the
  size is \<open>Math.round(len * 3 / 4 / 1024)\<close>, the nearest integer with halves rounded up,
  which is \<open>(3 * len + 2048) div 4096\<close>; it is not the ceiling. Without data (absent or
  empty) the record ends in \<open>?\<close>, with no \<open>KB\<close>.
\<close>

theorem image_block_record:
  assumes "get_prop block (U ''type'') = Some (JStr (U ''image''))"
    and "ToString_opt (or_else (get_prop block (U ''mimeType'')) (Some (JStr (U ''?'')))) = Some mt"
  shows "(get_prop block (U ''data'') = Some (JStr d) \<and> d \<noteq> [] \<longrightarrow>
            formatBlock c block =
              ([(U ''    '' @ DIM c @ U ''[image '' @ mt @ U '']'' @ RESET c @ U '' ''
                   @ Number_toString ((3 * int (length d) + 2048) div 4096) 0 @ U ''KB'',
                 U ''    [image '' @ mt @ U ''] ''
                   @ Number_toString ((3 * int (length d) + 2048) div 4096) 0 @ U ''KB'')],
               Returned))
       \<and> (\<not> truthy (get_prop block (U ''data'')) \<longrightarrow>
            formatBlock c block =
              ([(U ''    '' @ DIM c @ U ''[image '' @ mt @ U '']'' @ RESET c @ U '' ?'',
                 U ''    [image '' @ mt @ U ''] ?'')],
               Returned))
       \<and> (get_prop block (U ''mimeType'') = None \<longrightarrow> mt = U ''?'')
       \<and> (\<forall>m. get_prop block (U ''mimeType'') = Some (JStr m) \<and> m \<noteq> [] \<longrightarrow> mt = m)"
proof -
  have nn: "block \<noteq> JNull"
    using assms(1) by auto
  show ?thesis
    using assms nn
    by (auto simp: formatBlock_def Let_def image_kb_arith or_else_def)
qed

theorem image_block_record_witness:
  "get_prop image_block (U ''type'') = Some (JStr (U ''image''))
   \<and> ToString_opt (or_else (get_prop image_block (U ''mimeType'')) (Some (JStr (U ''?''))))
       = Some (U ''image/png'')
   \<and> get_prop image_block (U ''data'') = Some (JStr (replicate 4096 65))
   \<and> replicate 4096 (65::nat) \<noteq> []
   \<and> formatBlock PLAIN image_block
       = ([(U ''    [image image/png] 3KB'', U ''    [image image/png] 3KB'')], Returned)"
proof -
  have ty: "get_prop image_block (U ''type'') = Some (JStr (U ''image''))"
    by (simp add: image_block_def)
  have mt: "ToString_opt (or_else (get_prop image_block (U ''mimeType'')) (Some (JStr (U ''?''))))
       = Some (U ''image/png'')"
    by (simp add: image_block_def or_else_def)
  have da: "get_prop image_block (U ''data'') = Some (JStr (replicate 4096 65))"
    by (simp add: image_block_def)
  have ne: "replicate 4096 (65::nat) \<noteq> []"
    by simp
  have kb: "Number_toString 3 0 = U ''3''"
    by code_simp
  have "formatBlock PLAIN image_block
       = ([(U ''    [image image/png] 3KB'', U ''    [image image/png] 3KB'')], Returned)"
    using image_block_record [OF ty mt, of "replicate 4096 65" PLAIN] da ne
    by (simp add: PLAIN_def kb)
  with ty mt da ne show ?thesis by blast
qed

text \<open>
  Four characters of data are three bytes: rounding to the nearest gives \<open>0KB\<close>, where the
  ceiling \<open>(3 * 4 + 4095) div 4096\<close> would be 1.
\<close>

theorem image_size_not_ceiling_counterexample:
  "formatResult (U ''tools/call'') (Some (JObj [(U ''content'', JArr [small_image_block])])) None
     \<lparr>colors = PLAIN, plainColors = PLAIN\<rparr>
     = ([(U ''    [image ?] 0KB'', U ''    [image ?] 0KB'')], Returned)
   \<and> (3 * int (length (U ''AAAA'')) + 4095) div 4096 = 1"
  by code_simp

section \<open>Responses and the pending requests\<close>

lemma Map_delete_absent: "Map_get m i = None \<Longrightarrow> Map_delete m i = m"
proof (cases "is_object i")
  case True
  then show ?thesis by (simp add: Map_delete_def)
next
  case False
  assume "Map_get m i = None"
  with False have "i \<notin> fst ` set m"
    by (simp add: Map_get_def map_of_eq_None_iff)
  then have "filter (\<lambda>e. fst e \<noteq> i) m = m"
    by (intro filter_True) auto
  with False show ?thesis by (simp add: Map_delete_def)
qed

lemma methodColor_unknown: "methodColor (U ''unknown'') c = WHITE c"
  by (simp add: methodColor_def startsWith_def)

text \<open>
  C8. An error response (an id, no method, an error value that is truthy, as every
  object is) whose id has no pending entry writes exactly two records: the \<open>ERROR\<close>
  header with the method \<open>unknown\<close> and nothing after the two spaces where the elapsed
  time would stand, and the detail line \<open>[<code>] <message>\<close>. Nothing is raised and the
  map is unchanged. The id, the code and the message are values with a string
  conversion, as strings and numbers are.
\<close>

theorem error_response_unregistered:
  assumes "JSON_parse json = Some msg"
    and "get_prop msg (U ''id'') = Some i"
    and "ToString i = Some ids"
    and "\<not> truthy (get_prop msg (U ''method''))"
    and "get_prop msg (U ''error'') = Some e"
    and "truthy (Some e)"
    and "ToString_opt (or_else (get_prop e (U ''code'')) (Some (JStr (U ''?'')))) = Some cs"
    and "ToString_opt (or_else (get_prop e (U ''message'')) (Some (JStr (U ''Unknown error''))))
           = Some ms"
    and "Map_get (pendingRequests ctx) i = None"
  shows "formatMessage clock json d ctx =
     ([(DIM (mc_colors ctx) @ timestamp clock @ RESET (mc_colors ctx) @ U '' ''
          @ (if d = client then CYAN (mc_colors ctx) else GREEN (mc_colors ctx))
          @ (if d = client then [8594] else [8592]) @ U '' ''
          @ (if d = client then U ''CLIENT'' else U ''SERVER'') @ RESET (mc_colors ctx)
          @ U ''  '' @ RED (mc_colors ctx) @ BOLD (mc_colors ctx) @ U ''ERROR''
          @ RESET (mc_colors ctx) @ U ''  '' @ WHITE (mc_colors ctx) @ U ''(unknown #'' @ ids
          @ U '')'' @ RESET (mc_colors ctx) @ U ''  '' @ DIM (mc_colors ctx)
          @ RESET (mc_colors ctx),
        timestamp clock @ U '' '' @ (if d = client then [8594] else [8592]) @ U '' ''
          @ (if d = client then U ''CLIENT'' else U ''SERVER'') @ U ''  ERROR  (unknown #'' @ ids
          @ U '')  ''),
       (U ''    '' @ RED (mc_colors ctx) @ U ''['' @ cs @ U ''] '' @ ms @ RESET (mc_colors ctx),
        U ''    ['' @ cs @ U ''] '' @ ms)],
      pendingRequests ctx)"
proof -
  obtain kvs where msg: "msg = JObj kvs"
    using assms(2) by (cases msg) auto
  show ?thesis
    using assms unfolding msg
    by (simp add: formatMessage_def formatMessage_try_def Let_def Map_delete_absent
          methodColor_unknown)
qed

lemma parse_error_line:
  "JSON_parse error_line =
     Some (JObj [(U ''jsonrpc'', JStr (U ''2.0'')), (U ''id'', JNum 7 0),
                 (U ''error'', JObj [(U ''code'', JNum (- 32601) 0),
                                     (U ''message'', JStr (U ''Method not found''))])])"
  by code_simp

theorem error_response_unregistered_witness:
  "formatMessage \<lparr>timestamp = U ''12:34:57.456'', now = 5\<rparr> error_line server
     \<lparr>mc_colors = PLAIN, mc_plainColors = PLAIN, pendingRequests = []\<rparr>
   = ([(U ''12:34:57.456 '' @ [8592] @ U '' SERVER  ERROR  (unknown #7)  '',
        U ''12:34:57.456 '' @ [8592] @ U '' SERVER  ERROR  (unknown #7)  ''),
       (U ''    [-32601] Method not found'', U ''    [-32601] Method not found'')],
      [])"
proof -
  have ids: "ToString (JNum 7 0) = Some (U ''7'')"
    by code_simp
  have cs: "ToString_opt (or_else (get_prop (JObj [(U ''code'', JNum (- 32601) 0),
                (U ''message'', JStr (U ''Method not found''))]) (U ''code''))
              (Some (JStr (U ''?'')))) = Some (U ''-32601'')"
    by code_simp
  have ms: "ToString_opt (or_else (get_prop (JObj [(U ''code'', JNum (- 32601) 0),
                (U ''message'', JStr (U ''Method not found''))]) (U ''message''))
              (Some (JStr (U ''Unknown error'')))) = Some (U ''Method not found'')"
    by code_simp
  show ?thesis
    using error_response_unregistered
      [OF parse_error_line _ ids _ _ _ cs ms,
       of "\<lparr>mc_colors = PLAIN, mc_plainColors = PLAIN, pendingRequests = []\<rparr>"
          "\<lparr>timestamp = U ''12:34:57.456'', now = 5\<rparr>" server]
    by (simp add: Map_get_def PLAIN_def)
qed

text \<open>
  A notification, a line of unparsable shape and a line that is not JSON leave the map as
  it is: the first two have no id, the last does not parse.
\<close>

lemma formatMessage_frame:
  "JSON_parse json = None \<Longrightarrow> snd (formatMessage clock json d ctx) = pendingRequests ctx"
  "JSON_parse json = Some msg \<Longrightarrow> get_prop msg (U ''id'') = None \<Longrightarrow>
     snd (formatMessage clock json d ctx) = pendingRequests ctx"
   apply (simp add: formatMessage_def formatMessage_try_def Let_def)
  apply (simp add: formatMessage_def formatMessage_try_def Let_def split: option.splits)
  done

text \<open>
  Whatever the line, the map afterwards is the map before, or the map before with the
  entry of the id set (the line has a truthy method) or deleted (it has none).
\<close>

lemma formatMessage_try_changes:
  "snd (fst (formatMessage_try clock json d ctx)) = pendingRequests ctx
   \<or> (\<exists>msg i. JSON_parse json = Some msg \<and> get_prop msg (U ''id'') = Some i
        \<and> ((truthy (get_prop msg (U ''method''))
              \<and> (\<exists>e. snd (fst (formatMessage_try clock json d ctx)) = Map_set (pendingRequests ctx) i e))
           \<or> (\<not> truthy (get_prop msg (U ''method''))
              \<and> snd (fst (formatMessage_try clock json d ctx)) = Map_delete (pendingRequests ctx) i)))"
proof (cases "JSON_parse json")
  case None
  then show ?thesis by (simp add: formatMessage_try_def)
next
  case (Some msg)
  show ?thesis
  proof (cases "get_prop msg (U ''id'')")
    case None
    with Some show ?thesis
      by (simp add: formatMessage_try_def Let_def split: option.splits)
  next
    case (Some i)
    note id = this
    show ?thesis
    proof (cases "truthy (get_prop msg (U ''method''))")
      case True
      with \<open>JSON_parse json = Some msg\<close> id show ?thesis
        by (simp add: formatMessage_try_def Let_def split: option.splits prod.splits) blast
    next
      case False
      with \<open>JSON_parse json = Some msg\<close> id show ?thesis
        by (simp add: formatMessage_try_def Let_def split: option.splits prod.splits completion.splits)
    qed
  qed
qed

lemma formatMessage_changes:
  "snd (formatMessage clock json d ctx) = pendingRequests ctx
   \<or> (\<exists>msg i. JSON_parse json = Some msg \<and> get_prop msg (U ''id'') = Some i
        \<and> ((truthy (get_prop msg (U ''method''))
              \<and> (\<exists>e. snd (formatMessage clock json d ctx) = Map_set (pendingRequests ctx) i e))
           \<or> (\<not> truthy (get_prop msg (U ''method''))
              \<and> snd (formatMessage clock json d ctx) = Map_delete (pendingRequests ctx) i)))"
proof -
  have "snd (formatMessage clock json d ctx) = snd (fst (formatMessage_try clock json d ctx))"
    by (simp add: formatMessage_def Let_def split: prod.splits completion.splits)
  then show ?thesis
    using formatMessage_try_changes [of clock json d ctx] by simp
qed

text \<open>
  A request whose method is a non-empty string sets the entry of its id, and a response
  without a truthy error deletes the entry of its id when \<open>formatResult\<close> returns.
\<close>

lemma request_sets_entry:
  assumes "JSON_parse json = Some msg"
    and "get_prop msg (U ''id'') = Some i"
    and "get_prop msg (U ''method'') = Some (JStr m)" and "m \<noteq> []"
  shows "snd (formatMessage clock json d ctx) =
           Map_set (pendingRequests ctx) i
             \<lparr>pr_method = m,
              pr_toolName =
                (if m = U ''tools/call''
                    \<and> truthy (opt_prop (get_prop msg (U ''params'')) (U ''name''))
                 then opt_prop (get_prop msg (U ''params'')) (U ''name'') else None),
              pr_ts = now clock\<rparr>"
proof -
  obtain kvs where msg: "msg = JObj kvs"
    using assms(2) by (cases msg) auto
  show ?thesis
    using assms unfolding msg
    by (auto simp: formatMessage_def formatMessage_try_def Let_def methodColor_value_def
          split: option.splits prod.splits)
qed

lemma response_deletes_entry:
  assumes "JSON_parse json = Some msg"
    and "get_prop msg (U ''id'') = Some i" and "ToString i = Some ids"
    and "\<not> truthy (get_prop msg (U ''method''))"
    and "\<not> truthy (get_prop msg (U ''error''))"
    and "snd (formatResult
           (case Map_get (pendingRequests ctx) i of
              None \<Rightarrow> U ''unknown''
            | Some p \<Rightarrow> if pr_method p = [] then U ''unknown'' else pr_method p)
           (get_prop msg (U ''result'')) (Map_get (pendingRequests ctx) i)
           \<lparr>colors = mc_colors ctx, plainColors = mc_plainColors ctx\<rparr>) = Returned"
  shows "snd (formatMessage clock json d ctx) = Map_delete (pendingRequests ctx) i"
proof -
  obtain kvs where msg: "msg = JObj kvs"
    using assms(2) by (cases msg) auto
  show ?thesis
    using assms unfolding msg
    by (auto simp: formatMessage_def formatMessage_try_def Let_def
          split: option.splits prod.splits completion.splits if_splits)
qed

text \<open>
  C10. The map changes only where a request sets the entry of its id and a response
  deletes it, but a response does not always delete its entry. The result of a \<open>tools/call\<close> whose text
  block holds the number 42 makes \<open>text.split\<close> raise inside \<open>formatResult\<close>; the \<open>catch\<close>
  block writes the raw line, and the \<open>delete\<close> after \<open>formatResult\<close> is never reached: the
  entry for id 1 is still there.
\<close>

theorem response_raising_keeps_entry:
  "formatMessage \<lparr>timestamp = U ''12:00:00.000'', now = 50\<rparr> bad_response_line server
     \<lparr>mc_colors = PLAIN, mc_plainColors = PLAIN, pendingRequests = call_pending\<rparr>
   = ([(U ''12:00:00.000 '' @ [8592] @ U '' SERVER  response  tools/call  #1  50ms'',
        U ''12:00:00.000 '' @ [8592] @ U '' SERVER  response  tools/call  #1  50ms''),
       (U ''12:00:00.000 '' @ [8592] @ U '' SERVER  [raw] '' @ bad_response_line,
        U ''12:00:00.000 '' @ [8592] @ U '' SERVER  [raw] '' @ bad_response_line)],
      call_pending)
   \<and> Map_get call_pending (JNum 1 0) \<noteq> None"
  by code_simp

section \<open>Indented lines are dimmed\<close>

lemma indent_iff: "startsWith s (U ''    '') \<longleftrightarrow> (\<exists>t. s = 32 # 32 # 32 # 32 # t)"
proof
  assume "startsWith s (U ''    '')"
  then have "s = U ''    '' @ drop (length (U ''    '')) s"
    unfolding startsWith_def by (metis append_take_drop_id)
  moreover have "U ''    '' = [32, 32, 32, 32]"
    by (simp add: U_def)
  ultimately have "s = 32 # 32 # 32 # 32 # drop (length (U ''    '')) s"
    by simp
  then show "\<exists>t. s = 32 # 32 # 32 # 32 # t"
    by blast
next
  assume "\<exists>t. s = 32 # 32 # 32 # 32 # t"
  then show "startsWith s (U ''    '')"
    by (auto simp: startsWith_def U_def)
qed

lemma scan_keeps_space:
  "never_at_space m \<Longrightarrow> replace_scan g m r prev (32 # cs) = 32 # replace_scan g m r (Some 32) cs"
  by (simp add: never_at_space_def replace_scan.simps)

lemma scan_keeps_indent:
  assumes "never_at_space m" and "startsWith s (U ''    '')"
  shows "startsWith (replace_scan g m r prev s) (U ''    '')"
proof -
  from assms(2) obtain t where "s = 32 # 32 # 32 # 32 # t"
    using indent_iff by blast
  then have "replace_scan g m r prev s = 32 # 32 # 32 # 32 # replace_scan g m r (Some 32) t"
    by (simp add: scan_keeps_space [OF assms(1)])
  then show ?thesis
    using indent_iff by blast
qed

lemma not_space_32: "is_space 32" "\<not> is_digit 32" "\<not> is_word 32"
  by (simp_all add: is_space_def is_digit_def is_word_def)

lemma never_timestamp: "never_at_space m_timestamp"
  by (simp add: never_at_space_def m_timestamp_def not_space_32)

lemma never_literal: "lit \<noteq> [] \<Longrightarrow> hd lit \<noteq> 32 \<Longrightarrow> never_at_space (m_literal lit)"
  by (cases lit) (auto simp: never_at_space_def m_literal_def startsWith_def)

lemma never_word: "w \<noteq> [] \<Longrightarrow> hd w \<noteq> 32 \<Longrightarrow> never_at_space (m_word w)"
  by (cases w) (auto simp: never_at_space_def m_word_def startsWith_def)

lemma never_word_prefix: "w \<noteq> [] \<Longrightarrow> hd w \<noteq> 32 \<Longrightarrow> never_at_space (m_word_prefix w)"
  by (cases w) (auto simp: never_at_space_def m_word_prefix_def startsWith_def)

lemma never_family: "w \<noteq> [] \<Longrightarrow> hd w \<noteq> 32 \<Longrightarrow> never_at_space (m_family w)"
  by (cases w) (auto simp: never_at_space_def m_family_def startsWith_def)

lemma never_id: "never_at_space m_id"
  by (simp add: never_at_space_def m_id_def U_def)

lemma never_elapsed: "never_at_space m_elapsed"
  by (simp add: never_at_space_def m_elapsed_def not_space_32)

lemma hd_U: "hd (U (c # cs)) = of_char c" "U (c # cs) \<noteq> []"
  by (simp_all add: U_def)

lemma passes_keep_indent:
  assumes "startsWith line (U ''    '')"
  shows "startsWith (colorize_passes line) (U ''    '')"
  unfolding colorize_passes_def Let_def
  by (intro scan_keeps_indent never_timestamp never_literal never_word never_word_prefix
        never_family never_id never_elapsed assms)
     (simp_all add: hd_U)

lemma dimmed_not_detail: "\<not> error_detail (ansi code @ s)"
  by (simp add: error_detail_def ansi_def is_space_def)

lemma dimmed_not_stderr: "\<not> startsWith (ansi code @ s) (U ''[server stderr]'')"
  by (simp add: startsWith_def ansi_def U_def)

lemma colorize_indented:
  assumes "startsWith line (U ''    '')"
  shows "colorize line True = ansi ''2'' @ colorize_passes line @ ansi ''0''"
  using passes_keep_indent [OF assms]
  by (simp add: colorize_def Let_def dimmed_not_detail dimmed_not_stderr)

text \<open>
  C6. For every line that begins with four spaces and matches the error-detail pattern,
  \<open>colorize(line, true)\<close> is the line after the replacements, still indented, wrapped
  whole in the dim code: it begins with the dim code and not with the red one. The
  replacements leave the indentation alone, the dim wrap puts an escape character in
  front, and the error-detail test, which needs white space at the start, then fails.
\<close>

theorem indentation_dim_wins:
  assumes "startsWith line (U ''    '')" and "error_detail line"
  shows "colorize line True = ansi ''2'' @ colorize_passes line @ ansi ''0''
       \<and> startsWith (colorize_passes line) (U ''    '')
       \<and> startsWith (colorize line True) (ansi ''2'')
       \<and> \<not> startsWith (colorize line True) (ansi ''31'')"
proof -
  have "colorize line True = ansi ''2'' @ colorize_passes line @ ansi ''0''"
    by (rule colorize_indented [OF assms(1)])
  moreover have "startsWith (colorize_passes line) (U ''    '')"
    by (rule passes_keep_indent [OF assms(1)])
  moreover have "startsWith (ansi ''2'' @ x) (ansi ''2'')" for x
    by (simp add: startsWith_def)
  moreover have "\<not> startsWith (ansi ''2'' @ x) (ansi ''31'')" for x
    by (simp add: startsWith_def ansi_def U_def)
  ultimately show ?thesis by simp
qed

lemma detail_line_facts: "startsWith detail_line (U ''    '')" "error_detail detail_line"
  "colorize_passes detail_line = detail_line"
  by code_simp+

theorem indentation_dim_wins_witness:
  "startsWith detail_line (U ''    '') \<and> error_detail detail_line
   \<and> colorize detail_line True = ansi ''2'' @ detail_line @ ansi ''0''
   \<and> \<not> startsWith (colorize detail_line True) (ansi ''31'')"
proof -
  note dim = indentation_dim_wins [OF detail_line_facts(1) detail_line_facts(2)]
  have "colorize detail_line True = ansi ''2'' @ detail_line @ ansi ''0''"
    using dim by (simp only: detail_line_facts(3))
  moreover have "\<not> startsWith (colorize detail_line True) (ansi ''31'')"
    using dim by blast
  ultimately show ?thesis
    using detail_line_facts(1) detail_line_facts(2) by blast
qed

section \<open>The newest log file is chosen by modification time\<close>

lemma findLatestLog_fold:
  "findLatestLog readdirSync statSync join_path dir =
     (case readdirSync dir of
        None \<Rightarrow> None
      | Some entries \<Rightarrow> fst (fold (latest_step statSync join_path dir) entries (None, 0)))"
  unfolding findLatestLog_def latest_step_def by simp

lemma fold_latest:
  assumes "fold (latest_step statSync join_path dir) entries (l0, m0) = (l, m)"
  shows "m0 \<le> m
       \<and> (\<forall>e \<in> set entries. endsWith e (U ''.log'') \<longrightarrow>
            (\<forall>t. statSync (join_path dir e) = Some t \<longrightarrow> t \<le> m))
       \<and> ((l, m) = (l0, m0)
            \<or> (\<exists>e \<in> set entries. endsWith e (U ''.log'') \<and> statSync (join_path dir e) = Some m
                  \<and> l = Some (join_path dir e) \<and> m0 < m))"
  using assms
proof (induction entries arbitrary: l0 m0)
  case Nil
  then show ?case by simp
next
  case (Cons a entries)
  obtain l1 m1 where step: "latest_step statSync join_path dir a (l0, m0) = (l1, m1)"
    by (cases "latest_step statSync join_path dir a (l0, m0)")
  with Cons.prems have rest: "fold (latest_step statSync join_path dir) entries (l1, m1) = (l, m)"
    by simp
  note ih = Cons.IH [OF rest]
  have s1: "m0 \<le> m1"
    using step by (auto simp: latest_step_def Let_def split: if_splits option.splits)
  have s2: "endsWith a (U ''.log'') \<longrightarrow> (\<forall>t. statSync (join_path dir a) = Some t \<longrightarrow> t \<le> m1)"
    using step by (auto simp: latest_step_def Let_def split: if_splits option.splits)
  have s3: "(l1, m1) = (l0, m0)
       \<or> (endsWith a (U ''.log'') \<and> statSync (join_path dir a) = Some m1
           \<and> l1 = Some (join_path dir a) \<and> m0 < m1)"
    using step by (auto simp: latest_step_def Let_def split: if_splits option.splits)
  from ih s1 have c1: "m0 \<le> m" by linarith
  from ih s2 have c2: "\<forall>e \<in> set (a # entries). endsWith e (U ''.log'') \<longrightarrow>
            (\<forall>t. statSync (join_path dir e) = Some t \<longrightarrow> t \<le> m)"
    by (auto intro: order_trans)
  from ih s1 s3 have c3: "(l, m) = (l0, m0)
            \<or> (\<exists>e \<in> set (a # entries). endsWith e (U ''.log'') \<and> statSync (join_path dir e) = Some m
                  \<and> l = Some (join_path dir e) \<and> m0 < m)"
    by (elim conjE disjE bexE) (auto intro: less_le_trans le_less_trans)
  from c1 c2 c3 show ?case by blast
qed

lemma findLatestLog_positive:
  assumes "readdirSync dir = Some entries"
  shows "(findLatestLog readdirSync statSync join_path dir = None \<longleftrightarrow>
           (\<forall>e \<in> set entries. endsWith e (U ''.log'') \<longrightarrow>
              (\<forall>t. statSync (join_path dir e) = Some t \<longrightarrow> t \<le> 0)))
       \<and> (\<forall>p. findLatestLog readdirSync statSync join_path dir = Some p \<longrightarrow>
            (\<exists>e \<in> set entries. \<exists>t. endsWith e (U ''.log'') \<and> p = join_path dir e
               \<and> statSync p = Some t \<and> 0 < t
               \<and> (\<forall>e' \<in> set entries. endsWith e' (U ''.log'') \<longrightarrow>
                     (\<forall>t'. statSync (join_path dir e') = Some t' \<longrightarrow> t' \<le> t))))"
proof -
  obtain l m where f: "fold (latest_step statSync join_path dir) entries (None, 0) = (l, m)"
    by (cases "fold (latest_step statSync join_path dir) entries (None, 0)")
  then have r: "findLatestLog readdirSync statSync join_path dir = l"
    using assms by (simp add: findLatestLog_fold)
  from fold_latest [OF f]
  have bound: "\<forall>e \<in> set entries. endsWith e (U ''.log'') \<longrightarrow>
            (\<forall>t. statSync (join_path dir e) = Some t \<longrightarrow> t \<le> m)"
    and origin: "(l, m) = (None, 0)
            \<or> (\<exists>e \<in> set entries. endsWith e (U ''.log'') \<and> statSync (join_path dir e) = Some m
                  \<and> l = Some (join_path dir e) \<and> 0 < m)"
    by blast+
  show ?thesis
  proof (cases l)
    case None
    with origin have "m = 0" by auto
    with bound None show ?thesis unfolding r by simp
  next
    case (Some p)
    with origin obtain e where e: "e \<in> set entries" "endsWith e (U ''.log'')"
        "statSync (join_path dir e) = Some m" "p = join_path dir e" "0 < m"
      by auto
    have "\<not> (\<forall>e \<in> set entries. endsWith e (U ''.log'') \<longrightarrow>
              (\<forall>t. statSync (join_path dir e) = Some t \<longrightarrow> t \<le> 0))"
      using e by force
    moreover have "\<exists>e \<in> set entries. \<exists>t. endsWith e (U ''.log'') \<and> p = join_path dir e
               \<and> statSync p = Some t \<and> 0 < t
               \<and> (\<forall>e' \<in> set entries. endsWith e' (U ''.log'') \<longrightarrow>
                     (\<forall>t'. statSync (join_path dir e') = Some t' \<longrightarrow> t' \<le> t))"
      using e bound by blast
    ultimately show ?thesis unfolding r using Some by simp
  qed
qed

lemma findLatestLog_newer_wins:
  "findLatestLog (one_dir [U ''zzz-999.log'', U ''notes.txt'', U ''aaa-111.log''])
     (stat_of [(U ''zzz-999.log'', 1000), (U ''notes.txt'', 99999), (U ''aaa-111.log'', 11000)])
     slash_join (U ''/logs'') = Some (U ''/logs/aaa-111.log'')"
  by code_simp

text \<open>
  C7. Only entries that end in \<open>.log\<close> are considered and the choice is by modification
  time alone (\<open>findLatestLog_positive\<close>, \<open>findLatestLog_newer_wins\<close>), but the path of the
  newest entry is returned only if its modification time is above 0, the initial value
  of \<open>latestMtime\<close>. A directory whose only log file was last modified at the epoch
  (\<open>mtimeMs = 0\<close>) gives none, although it has a matching entry.
\<close>

theorem findLatestLog_epoch_file:
  "one_dir [U ''a.log''] (U ''/logs'') = Some [U ''a.log'']
   \<and> endsWith (U ''a.log'') (U ''.log'')
   \<and> stat_of [(U ''a.log'', 0)] (slash_join (U ''/logs'') (U ''a.log'')) = Some 0
   \<and> findLatestLog (one_dir [U ''a.log'']) (stat_of [(U ''a.log'', 0)]) slash_join (U ''/logs'')
       = None"
  by code_simp

end
